theory Spec2Isabelle
  imports Main "HOL-Library.Sublist"
begin

section \<open>Objects used as tables\<close>

text \<open>
  The resolver's scopes and a class's method table have the type
  \<open>Record<string, T>\<close>: plain JavaScript objects used as tables from names to values. An
  object written as a literal has \<open>Object.prototype\<close> as its prototype, and the operator
  \<open>in\<close> answers from the object's own properties and from its prototype chain:
  \<open>name in table\<close> holds for a name stored in the table and for each of the names below,
  the properties of \<open>Object.prototype\<close>.
\<close>

definition objectPrototypeKeys :: "string list" where
  "objectPrototypeKeys =
     [''constructor'', ''__defineGetter__'', ''__defineSetter__'', ''hasOwnProperty'',
      ''__lookupGetter__'', ''__lookupSetter__'', ''isPrototypeOf'',
      ''propertyIsEnumerable'', ''toString'', ''valueOf'', ''__proto__'',
      ''toLocaleString'']"

section \<open>The object model: \<open>src/ast/LoxClass.ts\<close>\<close>

text \<open>
  A class has a name, an optional superclass and a table of methods. The superclass
  field is \<open>readonly\<close> and set by the constructor, so a class can only refer to a class
  that existed before it: the chain of superclasses is finite, as the datatype has it.

  The method table \<open>methods: Record<string, LoxFunction>\<close> is handed to the constructor.
  It is an object literal; \<open>methods c\<close> is the map of its own properties. The field
  \<open>name\<close> is \<open>className\<close> here. The type of functions (\<open>LoxFunction\<close>, declared in
  \<open>src/ast/types.ts\<close>) is the parameter \<open>'f\<close>.
\<close>

datatype 'f LoxClass =
  LoxClass (className: string) (superclass: "'f LoxClass option") (methods: "string \<rightharpoonup> 'f")

text \<open>
  \<^verbatim>\<open>
  findMethod(name: string): LoxFunction | null {
    if (name in this.methods) { return this.methods[name] }
    if (this.superclass !== null) { return this.superclass.findMethod(name) }
    return null
  }
  \<close>
  The result \<open>null\<close> is \<open>None\<close>. When the table has the name as an own property,
  \<open>this.methods[name]\<close> is the function \<open>f\<close> stored there: the value \<open>Own f\<close>. When it has not, and the name is a
  property of \<open>Object.prototype\<close>, the test \<open>name in this.methods\<close> holds all the same and
  \<open>this.methods[name]\<close> is that inherited property, which is not a \<open>LoxFunction\<close>: the
  value \<open>Inherited name\<close>.
\<close>

datatype 'f Member = Own 'f | Inherited string

fun findMethod :: "'f LoxClass \<Rightarrow> string \<Rightarrow> 'f Member option" where
  "findMethod (LoxClass nm spr ms) n =
     (case ms n of
        Some f \<Rightarrow> Some (Own f)
      | None \<Rightarrow>
          if n \<in> set objectPrototypeKeys then Some (Inherited n)
          else (case spr of Some s \<Rightarrow> findMethod s n | None \<Rightarrow> None))"

text \<open>The superclass chain of a class, the class itself first.\<close>

fun chain :: "'f LoxClass \<Rightarrow> 'f LoxClass list" where
  "chain (LoxClass nm spr ms) =
     LoxClass nm spr ms # (case spr of Some s \<Rightarrow> chain s | None \<Rightarrow> [])"

text \<open>
  \<^verbatim>\<open>
  arity(): number {
    const initializer = this.findMethod('init')
    if (initializer === null) return 0
    return initializer.arity()
  }
  \<close>
  \<open>LoxFunction.arity\<close> is not part of the sources. The parameter \<open>fn_arity\<close> is the method
  \<open>arity\<close> of the value that \<open>findMethod\<close> returns.
\<close>

definition arity :: "('f Member \<Rightarrow> nat) \<Rightarrow> 'f LoxClass \<Rightarrow> nat" where
  "arity fn_arity c =
     (case findMethod c ''init'' of None \<Rightarrow> 0 | Some initializer \<Rightarrow> fn_arity initializer)"





section \<open>The resolver: \<open>Resolver.ts\<close>\<close>

subsection \<open>Tokens and syntax trees\<close>

text \<open>
  The declarations of \<open>Token\<close>, \<open>Expr\<close> and \<open>Stmt\<close> are not part of the sources. The
  datatypes below have the fields that the resolver reads. The resolver hands
  variable, assignment, \<open>this\<close> and \<open>super\<close> expressions to the interpreter, which keys
  its table by the identity of the node object: these nodes carry a number standing
  for that identity.
\<close>

datatype Token = Token (lexeme: string) (line: nat)

datatype VariableExpr = VariableExpr (node: nat) (varName: Token)

datatype Expr =
    AssignExpr nat Token Expr
  | BinaryExpr Expr Expr
  | CallExpr Expr "Expr list"
  | GetExpr Expr
  | GroupingExpr Expr
  | LiteralExpr
  | LogicalExpr Expr Expr
  | SetExpr Expr Expr
  | SuperExpr nat Token
  | ThisExpr nat Token
  | UnaryExpr Expr
  | Variable VariableExpr

text \<open>
  Fields, in order: \<open>AssignExpr\<close> node, name, value; \<open>BinaryExpr\<close> and \<open>LogicalExpr\<close> left,
  right; \<open>CallExpr\<close> callee, args; \<open>GetExpr\<close> object; \<open>SetExpr\<close> object, value;
  \<open>SuperExpr\<close> and \<open>ThisExpr\<close> node, keyword; \<open>UnaryExpr\<close> right.
\<close>

datatype Stmt =
    BlockStmt "Stmt list"
  | ClassStmt Token "VariableExpr option" "FunctionStmt list"
  | ExpressionStmt Expr
  | Function FunctionStmt
  | IfStmt Expr Stmt "Stmt option"
  | PrintStmt Expr
  | ReturnStmt Token "Expr option"
  | VarStmt Token "Expr option"
  | WhileStmt Expr Stmt
and FunctionStmt =
    FunctionStmt (funName: Token) (params: "Token list") (body: "Stmt list")

text \<open>
  Fields, in order: \<open>ClassStmt\<close> name, superclass, methods; \<open>IfStmt\<close> condition,
  thenBranch, elseBranch; \<open>ReturnStmt\<close> keyword, value; \<open>VarStmt\<close> name, initializer;
  \<open>WhileStmt\<close> condition, body.
\<close>

subsection \<open>Scopes\<close>

text \<open>
  \<^verbatim>\<open>type Scope = Record<string, boolean>\<close>

  Every scope is created by \<open>this.scopes.push({})\<close>: an object literal, whose prototype is
  \<open>Object.prototype\<close>. A \<open>Scope\<close> value is the map of the object's own properties. The
  three ways the resolver touches a scope are:

  \<^item> \<open>name in scope\<close>, which JavaScript answers from the own properties and from the
    prototype chain: it holds for a name stored in the scope and for each property of
    \<open>Object.prototype\<close>;
  \<^item> \<open>scope[name] = b\<close>, which stores an own property, except for \<open>__proto__\<close>, an
    accessor of \<open>Object.prototype\<close> whose setter ignores a boolean;
  \<^item> \<open>scope[name] === false\<close>, which holds when the own property is \<open>false\<close>: an
    inherited property is a function or an object, never \<open>false\<close>.
\<close>

type_synonym Scope = "string \<rightharpoonup> bool"

definition hasProperty :: "string \<Rightarrow> Scope \<Rightarrow> bool" where
  "hasProperty k scope \<longleftrightarrow> scope k \<noteq> None \<or> k \<in> set objectPrototypeKeys"

definition setProperty :: "Scope \<Rightarrow> string \<Rightarrow> bool \<Rightarrow> Scope" where
  "setProperty scope k b = (if k = ''__proto__'' then scope else scope(k \<mapsto> b))"

definition isFalse :: "Scope \<Rightarrow> string \<Rightarrow> bool" where
  "isFalse scope k \<longleftrightarrow> scope k = Some False"

subsection \<open>The state of the resolver\<close>

text \<open>
  \<^verbatim>\<open>
  enum FunctionType { None = 'None', Function = 'Function',
                      Initializer = 'Initializer', Method = 'Method' }
  enum ClassType { None = 'None', Class = 'Class', SubClass = 'Subclass' }
  \<close>
  The two members \<open>None\<close> are \<open>FunctionNone\<close> and \<open>ClassNone\<close>, and
  \<open>FunctionType.Function\<close> is \<open>FunctionFunction\<close>.
\<close>

datatype FunctionType = FunctionNone | FunctionFunction | Initializer | Method

datatype ClassType = ClassNone | Class | SubClass

datatype ResolvingError = ResolvingError (message: string) (errorLine: nat)

text \<open>
  The stack of scopes is a JavaScript array: index 0 is the outermost scope and the
  last element is the innermost one. \<open>diagnostics\<close> is the sequence of errors handed to
  \<open>errorReporter.report\<close> and \<open>resolved\<close> the sequence of calls
  \<open>interpreter.resolve(expr, depth)\<close>, both in the order they are made.
\<close>

record Resolver =
  scopes :: "Scope list"
  currentFunction :: FunctionType
  currentClass :: ClassType
  diagnostics :: "ResolvingError list"
  resolved :: "(nat \<times> nat) list"

definition newResolver :: Resolver where
  "newResolver =
     \<lparr>scopes = [], currentFunction = FunctionNone, currentClass = ClassNone,
      diagnostics = [], resolved = []\<rparr>"

text \<open>
  Modelled from the spec: the interpreter's depth table (\<open>Interpreter.ts\<close> is not part
  of the sources), a "mapping from (expression node identity) to a non-negative
  integer". A later call for the same node replaces the earlier entry.
\<close>

definition depthTable :: "Resolver \<Rightarrow> nat \<rightharpoonup> nat" where
  "depthTable r = map_of (rev (resolved r))"

text \<open>
  Modelled from the spec: the diagnostics sink (\<open>errors/ErrorReporter.ts\<close> is not part of
  the sources). "All diagnostics accumulate (resolution does not stop at the first
  error)": \<open>report\<close> records the error and returns.
\<close>

definition report :: "ResolvingError \<Rightarrow> Resolver \<Rightarrow> Resolver" where
  "report e r = r\<lparr>diagnostics := diagnostics r @ [e]\<rparr>"

text \<open>\<open>this.interpreter.resolve(expr, depth)\<close>: the call is recorded.\<close>

definition interpreterResolve :: "nat \<Rightarrow> nat \<Rightarrow> Resolver \<Rightarrow> Resolver" where
  "interpreterResolve expr depth r = r\<lparr>resolved := resolved r @ [(expr, depth)]\<rparr>"

text \<open>
  \<^verbatim>\<open>
  isEmpty(): boolean { return this.length < 1 }
  peek(): Scope { return this[this.length - 1] }
  private beginScope(): void { this.scopes.push({}) }
  private endScope(): void { this.scopes.pop() }
  \<close>
  \<open>pop\<close> on an empty array leaves it empty, as \<open>butlast\<close> does. \<open>peek\<close> is only
  called on a stack that is not empty: after the \<open>isEmpty\<close> test or after a push.
\<close>

definition isEmpty :: "Scope list \<Rightarrow> bool" where
  "isEmpty stack \<longleftrightarrow> length stack < 1"

definition peek :: "Scope list \<Rightarrow> Scope" where
  "peek stack = last stack"

definition beginScope :: "Resolver \<Rightarrow> Resolver" where
  "beginScope r = r\<lparr>scopes := scopes r @ [Map.empty]\<rparr>"

definition endScope :: "Resolver \<Rightarrow> Resolver" where
  "endScope r = r\<lparr>scopes := butlast (scopes r)\<rparr>"

text \<open>
  \<open>this.scopes.peek()[k] = b\<close>: the innermost scope object is updated in place. Only the
  stack refers to it.
\<close>

definition putInnermost :: "string \<Rightarrow> bool \<Rightarrow> Resolver \<Rightarrow> Resolver" where
  "putInnermost k b r =
     r\<lparr>scopes := butlast (scopes r) @ [setProperty (peek (scopes r)) k b]\<rparr>"

text \<open>
  \<^verbatim>\<open>
  private declare(name: Token): void {
    if (this.scopes.isEmpty()) return
    const scope = this.scopes.peek()
    if (name.lexeme in scope) {
      errorReporter.report(
        new ResolvingError('Already variable with this name in scope', name.line))
    }
    scope[name.lexeme] = false
  }

  private define(name: Token): void {
    if (this.scopes.isEmpty()) return
    const scope = this.scopes.peek()
    scope[name.lexeme] = true
  }
  \<close>
  (\<open>declare\<close> and \<open>define\<close> are \<open>declareVar\<close> and \<open>defineVar\<close> here.)
\<close>

definition declareVar :: "Token \<Rightarrow> Resolver \<Rightarrow> Resolver" where
  "declareVar name r =
     (if isEmpty (scopes r) then r
      else putInnermost (lexeme name) False
             (if hasProperty (lexeme name) (peek (scopes r))
              then report (ResolvingError ''Already variable with this name in scope''
                             (line name)) r
              else r))"

definition defineVar :: "Token \<Rightarrow> Resolver \<Rightarrow> Resolver" where
  "defineVar name r =
     (if isEmpty (scopes r) then r else putInnermost (lexeme name) True r)"

text \<open>
  \<^verbatim>\<open>
  private resolveLocal(expr: Expr, name: Token): void {
    for (let i = this.scopes.length - 1; i >= 0; i--) {
      if (name.lexeme in this.scopes[i]) {
        this.interpreter.resolve(expr, this.scopes.length - 1 - i)
        return
      }
    }
  }
  \<close>
  The loop counts \<open>i\<close> down to \<open>-1\<close>; \<open>scanScopes\<close> is the loop, its first argument being
  \<open>i + 1\<close>.
\<close>

fun scanScopes :: "nat \<Rightarrow> nat \<Rightarrow> Token \<Rightarrow> Resolver \<Rightarrow> Resolver" where
  "scanScopes 0 expr name r = r"
| "scanScopes (Suc i) expr name r =
     (if hasProperty (lexeme name) (scopes r ! i)
      then interpreterResolve expr (length (scopes r) - 1 - i) r
      else scanScopes i expr name r)"

definition resolveLocal :: "nat \<Rightarrow> Token \<Rightarrow> Resolver \<Rightarrow> Resolver" where
  "resolveLocal expr name r = scanScopes (length (scopes r)) expr name r"

subsection \<open>Expressions\<close>

text \<open>
  \<^verbatim>\<open>
  visitSuperExpr(expr: SuperExpr): void {
    if (this.currentClass === ClassType.None) {
      errorReporter.report(
        new ResolvingError("Can't use 'super' outside of class", expr.keyword.line))
    } else if (this.currentClass !== ClassType.SubClass) {
      errorReporter.report(
        new ResolvingError("Can't use 'super' in a class with no superclass",
                           expr.keyword.line))
    }
    this.resolveLocal(expr, expr.keyword)
  }

  visitThisExpr(expr: ThisExpr): void {
    if (this.currentClass === ClassType.None) {
      errorReporter.report(
        new ResolvingError("Can't use 'this' outside of a class", expr.keyword.line))
      return
    }
    this.resolveLocal(expr, expr.keyword)
  }

  visitVariableExpr(expr: VariableExpr): void {
    if (!this.scopes.isEmpty() &&
        this.scopes.peek()[expr.name.lexeme] === false) {
      errorReporter.report(
        new ResolvingError("Can't read local variable in its own initializer",
                           expr.name.line))
    }
    this.resolveLocal(expr, expr.name)
  }
  \<close>
\<close>

definition visitSuperExpr :: "nat \<Rightarrow> Token \<Rightarrow> Resolver \<Rightarrow> Resolver" where
  "visitSuperExpr expr keyword r =
     resolveLocal expr keyword
       (if currentClass r = ClassNone
        then report (ResolvingError ''Can't use 'super' outside of class'' (line keyword)) r
        else if currentClass r \<noteq> SubClass
        then report (ResolvingError ''Can't use 'super' in a class with no superclass''
                       (line keyword)) r
        else r)"

definition visitThisExpr :: "nat \<Rightarrow> Token \<Rightarrow> Resolver \<Rightarrow> Resolver" where
  "visitThisExpr expr keyword r =
     (if currentClass r = ClassNone
      then report (ResolvingError ''Can't use 'this' outside of a class'' (line keyword)) r
      else resolveLocal expr keyword r)"

definition visitVariableExpr :: "VariableExpr \<Rightarrow> Resolver \<Rightarrow> Resolver" where
  "visitVariableExpr expr r =
     resolveLocal (node expr) (varName expr)
       (if \<not> isEmpty (scopes r) \<and> isFalse (peek (scopes r)) (lexeme (varName expr))
        then report (ResolvingError ''Can't read local variable in its own initializer''
                       (line (varName expr))) r
        else r)"

text \<open>
  \<open>resolve(target)\<close> on an expression is \<open>target.accept(this)\<close>, which calls the visit
  method of the node's class; each equation of \<open>resolveExpr\<close> is the body of that method.
  \<^verbatim>\<open>
  visitAssignExpr(expr)   { this.resolve(expr.value); this.resolveLocal(expr, expr.name) }
  visitBinaryExpr(expr)   { this.resolve(expr.left); this.resolve(expr.right) }
  visitCallExpr(expr)     { this.resolve(expr.callee)
                            for (const arg of expr.args) { this.resolve(arg) } }
  visitGetExpr(expr)      { this.resolve(expr.object) }
  visitGroupingExpr(expr) { this.resolve(expr.expression) }
  visitLiteralExpr()      { return }
  visitLogicalExpr(expr)  { this.resolve(expr.right); this.resolve(expr.left) }
  visitSetExpr(expr)      { this.resolve(expr.value); this.resolve(expr.object) }
  visitUnaryExpr(expr)    { this.resolve(expr.right) }
  \<close>
\<close>

fun resolveExpr :: "Expr \<Rightarrow> Resolver \<Rightarrow> Resolver"
  and resolveArgs :: "Expr list \<Rightarrow> Resolver \<Rightarrow> Resolver" where
  "resolveExpr (AssignExpr expr name val) r = resolveLocal expr name (resolveExpr val r)"
| "resolveExpr (BinaryExpr left right) r = resolveExpr right (resolveExpr left r)"
| "resolveExpr (CallExpr callee args) r = resolveArgs args (resolveExpr callee r)"
| "resolveExpr (GetExpr object) r = resolveExpr object r"
| "resolveExpr (GroupingExpr expression) r = resolveExpr expression r"
| "resolveExpr LiteralExpr r = r"
| "resolveExpr (LogicalExpr left right) r = resolveExpr left (resolveExpr right r)"
| "resolveExpr (SetExpr object val) r = resolveExpr object (resolveExpr val r)"
| "resolveExpr (SuperExpr expr keyword) r = visitSuperExpr expr keyword r"
| "resolveExpr (ThisExpr expr keyword) r = visitThisExpr expr keyword r"
| "resolveExpr (UnaryExpr right) r = resolveExpr right r"
| "resolveExpr (Variable expr) r = visitVariableExpr expr r"
| "resolveArgs [] r = r"
| "resolveArgs (arg # args) r = resolveArgs args (resolveExpr arg r)"

subsection \<open>Statements\<close>

text \<open>
  \<^verbatim>\<open>
  visitReturnStmt(stmt: ReturnStmt): void {
    if (this.currentFunction === FunctionType.None)
      errorReporter.report(
        new ResolvingError("Can't return from top-level code", stmt.keyword.line))
    if (stmt.value !== null) {
      if (this.currentFunction === FunctionType.Initializer) {
        errorReporter.report(
          new ResolvingError("Can't return a value from an initializer",
                             stmt.keyword.line))
      }
      this.resolve(stmt.value)
    }
  }

  visitVarStmt(stmt: VarStmt): void {
    this.declare(stmt.name)
    if (stmt.initializer !== null) { this.resolve(stmt.initializer) }
    this.define(stmt.name)
  }
  \<close>
\<close>

definition visitReturnStmt :: "Token \<Rightarrow> Expr option \<Rightarrow> Resolver \<Rightarrow> Resolver" where
  "visitReturnStmt keyword val r =
     (let r1 = (if currentFunction r = FunctionNone
                then report (ResolvingError ''Can't return from top-level code''
                               (line keyword)) r
                else r)
      in case val of
           None \<Rightarrow> r1
         | Some v \<Rightarrow>
             resolveExpr v
               (if currentFunction r1 = Initializer
                then report (ResolvingError ''Can't return a value from an initializer''
                               (line keyword)) r1
                else r1))"

definition visitVarStmt :: "Token \<Rightarrow> Expr option \<Rightarrow> Resolver \<Rightarrow> Resolver" where
  "visitVarStmt name initializer r =
     defineVar name
       (case initializer of
          None \<Rightarrow> declareVar name r
        | Some e \<Rightarrow> resolveExpr e (declareVar name r))"

text \<open>
  The first half of \<open>visitClassStmt\<close>, up to the superclass:
  \<^verbatim>\<open>
    this.currentClass = ClassType.Class
    this.declare(stmt.name)
    this.define(stmt.name)
    if (stmt.superclass !== null) {
      if (stmt.name.lexeme === stmt.superclass.name.lexeme) {
        errorReporter.report(
          new ResolvingError("A class can't inherit from itself.",
                             stmt.superclass.name.line))
      } else {
        this.currentClass = ClassType.SubClass
        this.resolve(stmt.superclass)
        this.beginScope()
        this.scopes.peek()['super'] = true
      }
    }
    this.beginScope()
    this.scopes.peek()['this'] = true
  \<close>
\<close>

definition classSuperclass :: "Token \<Rightarrow> VariableExpr option \<Rightarrow> Resolver \<Rightarrow> Resolver" where
  "classSuperclass name spr r =
     (case spr of
        None \<Rightarrow> r
      | Some s \<Rightarrow>
          if lexeme name = lexeme (varName s)
          then report (ResolvingError ''A class can't inherit from itself.''
                         (line (varName s))) r
          else putInnermost ''super'' True
                 (beginScope (visitVariableExpr s (r\<lparr>currentClass := SubClass\<rparr>))))"

definition classHeader :: "Token \<Rightarrow> VariableExpr option \<Rightarrow> Resolver \<Rightarrow> Resolver" where
  "classHeader name spr r =
     putInnermost ''this'' True
       (beginScope
          (classSuperclass name spr
             (defineVar name (declareVar name (r\<lparr>currentClass := Class\<rparr>)))))"

text \<open>
  The end of \<open>visitClassStmt\<close>, after the methods:
  \<^verbatim>\<open>
    this.endScope()
    if (stmt.superclass !== null) this.endScope()
    this.currentClass = enclosingClass
  \<close>
\<close>

definition classFooter :: "VariableExpr option \<Rightarrow> ClassType \<Rightarrow> Resolver \<Rightarrow> Resolver" where
  "classFooter spr enclosingClass r =
     (if spr \<noteq> None then endScope (endScope r) else endScope r)
       \<lparr>currentClass := enclosingClass\<rparr>"

text \<open>
  \<^verbatim>\<open>
  for (const param of func.params) { this.declare(param); this.define(param) }
  \<close>
\<close>

fun declareParams :: "Token list \<Rightarrow> Resolver \<Rightarrow> Resolver" where
  "declareParams [] r = r"
| "declareParams (param # ps) r = declareParams ps (defineVar param (declareVar param r))"

text \<open>
  \<open>resolve(target)\<close> on a statement is \<open>target.accept(this)\<close>, and on an array it resolves
  the statements in turn (\<open>resolveStmts\<close>).
  \<^verbatim>\<open>
  visitBlockStmt(stmt) { this.beginScope(); this.resolve(stmt.statements); this.endScope() }

  visitClassStmt(stmt) {
    const enclosingClass = this.currentClass
    ... (classHeader)
    for (const method of stmt.methods) {
      let declaration = FunctionType.Method
      if (method.name.lexeme === 'init') { declaration = FunctionType.Initializer }
      this.resolveFunction(method, declaration)
    }
    ... (classFooter)
  }

  visitExpressionStmt(stmt) { this.resolve(stmt.expression) }

  visitFunctionStmt(stmt) {
    this.declare(stmt.name); this.define(stmt.name)
    this.resolveFunction(stmt, FunctionType.Function)
  }

  visitIfStmt(stmt) {
    this.resolve(stmt.condition)
    this.resolve(stmt.thenBranch)
    if (stmt.elseBranch !== null) this.resolve(stmt.elseBranch)
  }

  visitPrintStmt(stmt) { this.resolve(stmt.expression) }
  visitWhileStmt(stmt) { this.resolve(stmt.condition); this.resolve(stmt.body) }

  private resolveFunction(func: FunctionStmt, type: FunctionType) {
    const enclosingFunction = this.currentFunction
    this.currentFunction = type
    this.beginScope()
    for (const param of func.params) { this.declare(param); this.define(param) }
    this.resolve(func.body)
    this.endScope()
    this.currentFunction = enclosingFunction
  }
  \<close>
\<close>

fun resolveStmt :: "Stmt \<Rightarrow> Resolver \<Rightarrow> Resolver"
  and resolveStmts :: "Stmt list \<Rightarrow> Resolver \<Rightarrow> Resolver"
  and resolveFunction :: "FunctionStmt \<Rightarrow> FunctionType \<Rightarrow> Resolver \<Rightarrow> Resolver"
  and resolveMethods :: "FunctionStmt list \<Rightarrow> Resolver \<Rightarrow> Resolver" where
  "resolveStmt (BlockStmt statements) r = endScope (resolveStmts statements (beginScope r))"
| "resolveStmt (ClassStmt name spr ms) r =
     classFooter spr (currentClass r) (resolveMethods ms (classHeader name spr r))"
| "resolveStmt (ExpressionStmt expression) r = resolveExpr expression r"
| "resolveStmt (Function f) r =
     resolveFunction f FunctionFunction (defineVar (funName f) (declareVar (funName f) r))"
| "resolveStmt (IfStmt condition thenBranch elseBranch) r =
     (case elseBranch of
        None \<Rightarrow> resolveStmt thenBranch (resolveExpr condition r)
      | Some e \<Rightarrow> resolveStmt e (resolveStmt thenBranch (resolveExpr condition r)))"
| "resolveStmt (PrintStmt expression) r = resolveExpr expression r"
| "resolveStmt (ReturnStmt keyword val) r = visitReturnStmt keyword val r"
| "resolveStmt (VarStmt name initializer) r = visitVarStmt name initializer r"
| "resolveStmt (WhileStmt condition b) r = resolveStmt b (resolveExpr condition r)"
| "resolveStmts [] r = r"
| "resolveStmts (statement # rest) r = resolveStmts rest (resolveStmt statement r)"
| "resolveFunction (FunctionStmt name ps b) type r =
     (endScope (resolveStmts b (declareParams ps (beginScope (r\<lparr>currentFunction := type\<rparr>)))))
       \<lparr>currentFunction := currentFunction r\<rparr>"
| "resolveMethods [] r = r"
| "resolveMethods (method # rest) r =
     resolveMethods rest
       (resolveFunction method
          (if lexeme (funName method) = ''init'' then Initializer else Method) r)"

subsection \<open>Programs without a self-inheriting class\<close>

text \<open>
  A statement in which no class declaration, at any depth, names itself as its
  superclass.
\<close>

fun noSelfInheritance :: "Stmt \<Rightarrow> bool"
  and noSelfInheritanceList :: "Stmt list \<Rightarrow> bool"
  and noSelfInheritanceFun :: "FunctionStmt \<Rightarrow> bool"
  and noSelfInheritanceFuns :: "FunctionStmt list \<Rightarrow> bool" where
  "noSelfInheritance (BlockStmt statements) = noSelfInheritanceList statements"
| "noSelfInheritance (ClassStmt name spr ms) =
     ((case spr of None \<Rightarrow> True | Some s \<Rightarrow> lexeme name \<noteq> lexeme (varName s))
      \<and> noSelfInheritanceFuns ms)"
| "noSelfInheritance (ExpressionStmt expression) = True"
| "noSelfInheritance (Function f) = noSelfInheritanceFun f"
| "noSelfInheritance (IfStmt condition thenBranch elseBranch) =
     (noSelfInheritance thenBranch \<and>
      (case elseBranch of None \<Rightarrow> True | Some e \<Rightarrow> noSelfInheritance e))"
| "noSelfInheritance (PrintStmt expression) = True"
| "noSelfInheritance (ReturnStmt keyword val) = True"
| "noSelfInheritance (VarStmt name initializer) = True"
| "noSelfInheritance (WhileStmt condition b) = noSelfInheritance b"
| "noSelfInheritanceList [] = True"
| "noSelfInheritanceList (statement # rest) =
     (noSelfInheritance statement \<and> noSelfInheritanceList rest)"
| "noSelfInheritanceFun (FunctionStmt name ps b) = noSelfInheritanceList b"
| "noSelfInheritanceFuns [] = True"
| "noSelfInheritanceFuns (method # rest) =
     (noSelfInheritanceFun method \<and> noSelfInheritanceFuns rest)"

subsection \<open>The resolver that resolves \<open>this\<close> after the error\<close>

text \<open>
  The specification's words for \<open>this\<close>: "error if current-class-kind is \<open>None\<close>; [...]
  both still attempt \<open>resolveLocal\<close> for the keyword token". \<open>visitThisExprSpec\<close> does so,
  and the functions below are the resolver with \<open>visitThisExprSpec\<close> in the place of
  \<open>visitThisExpr\<close>, to be compared with the resolver of the source.
\<close>

definition visitThisExprSpec :: "nat \<Rightarrow> Token \<Rightarrow> Resolver \<Rightarrow> Resolver" where
  "visitThisExprSpec expr keyword r =
     resolveLocal expr keyword
       (if currentClass r = ClassNone
        then report (ResolvingError ''Can't use 'this' outside of a class'' (line keyword)) r
        else r)"

fun resolveExprSpec :: "Expr \<Rightarrow> Resolver \<Rightarrow> Resolver"
  and resolveArgsSpec :: "Expr list \<Rightarrow> Resolver \<Rightarrow> Resolver" where
  "resolveExprSpec (AssignExpr expr name val) r =
     resolveLocal expr name (resolveExprSpec val r)"
| "resolveExprSpec (BinaryExpr left right) r = resolveExprSpec right (resolveExprSpec left r)"
| "resolveExprSpec (CallExpr callee args) r = resolveArgsSpec args (resolveExprSpec callee r)"
| "resolveExprSpec (GetExpr object) r = resolveExprSpec object r"
| "resolveExprSpec (GroupingExpr expression) r = resolveExprSpec expression r"
| "resolveExprSpec LiteralExpr r = r"
| "resolveExprSpec (LogicalExpr left right) r = resolveExprSpec left (resolveExprSpec right r)"
| "resolveExprSpec (SetExpr object val) r = resolveExprSpec object (resolveExprSpec val r)"
| "resolveExprSpec (SuperExpr expr keyword) r = visitSuperExpr expr keyword r"
| "resolveExprSpec (ThisExpr expr keyword) r = visitThisExprSpec expr keyword r"
| "resolveExprSpec (UnaryExpr right) r = resolveExprSpec right r"
| "resolveExprSpec (Variable expr) r = visitVariableExpr expr r"
| "resolveArgsSpec [] r = r"
| "resolveArgsSpec (arg # args) r = resolveArgsSpec args (resolveExprSpec arg r)"

definition visitReturnStmtSpec :: "Token \<Rightarrow> Expr option \<Rightarrow> Resolver \<Rightarrow> Resolver" where
  "visitReturnStmtSpec keyword val r =
     (let r1 = (if currentFunction r = FunctionNone
                then report (ResolvingError ''Can't return from top-level code''
                               (line keyword)) r
                else r)
      in case val of
           None \<Rightarrow> r1
         | Some v \<Rightarrow>
             resolveExprSpec v
               (if currentFunction r1 = Initializer
                then report (ResolvingError ''Can't return a value from an initializer''
                               (line keyword)) r1
                else r1))"

definition visitVarStmtSpec :: "Token \<Rightarrow> Expr option \<Rightarrow> Resolver \<Rightarrow> Resolver" where
  "visitVarStmtSpec name initializer r =
     defineVar name
       (case initializer of
          None \<Rightarrow> declareVar name r
        | Some e \<Rightarrow> resolveExprSpec e (declareVar name r))"

fun resolveStmtSpec :: "Stmt \<Rightarrow> Resolver \<Rightarrow> Resolver"
  and resolveStmtsSpec :: "Stmt list \<Rightarrow> Resolver \<Rightarrow> Resolver"
  and resolveFunctionSpec :: "FunctionStmt \<Rightarrow> FunctionType \<Rightarrow> Resolver \<Rightarrow> Resolver"
  and resolveMethodsSpec :: "FunctionStmt list \<Rightarrow> Resolver \<Rightarrow> Resolver" where
  "resolveStmtSpec (BlockStmt statements) r =
     endScope (resolveStmtsSpec statements (beginScope r))"
| "resolveStmtSpec (ClassStmt name spr ms) r =
     classFooter spr (currentClass r) (resolveMethodsSpec ms (classHeader name spr r))"
| "resolveStmtSpec (ExpressionStmt expression) r = resolveExprSpec expression r"
| "resolveStmtSpec (Function f) r =
     resolveFunctionSpec f FunctionFunction
       (defineVar (funName f) (declareVar (funName f) r))"
| "resolveStmtSpec (IfStmt condition thenBranch elseBranch) r =
     (case elseBranch of
        None \<Rightarrow> resolveStmtSpec thenBranch (resolveExprSpec condition r)
      | Some e \<Rightarrow>
          resolveStmtSpec e (resolveStmtSpec thenBranch (resolveExprSpec condition r)))"
| "resolveStmtSpec (PrintStmt expression) r = resolveExprSpec expression r"
| "resolveStmtSpec (ReturnStmt keyword val) r = visitReturnStmtSpec keyword val r"
| "resolveStmtSpec (VarStmt name initializer) r = visitVarStmtSpec name initializer r"
| "resolveStmtSpec (WhileStmt condition b) r = resolveStmtSpec b (resolveExprSpec condition r)"
| "resolveStmtsSpec [] r = r"
| "resolveStmtsSpec (statement # rest) r =
     resolveStmtsSpec rest (resolveStmtSpec statement r)"
| "resolveFunctionSpec (FunctionStmt name ps b) type r =
     (endScope
        (resolveStmtsSpec b (declareParams ps (beginScope (r\<lparr>currentFunction := type\<rparr>)))))
       \<lparr>currentFunction := currentFunction r\<rparr>"
| "resolveMethodsSpec [] r = r"
| "resolveMethodsSpec (method # rest) r =
     resolveMethodsSpec rest
       (resolveFunctionSpec method
          (if lexeme (funName method) = ''init'' then Initializer else Method) r)"

subsection \<open>Programs in which \<open>this\<close> is a keyword\<close>

text \<open>
  The lexer turns the word \<open>this\<close> into a keyword: in a syntax tree that the parser
  delivers, the keyword of every \<open>this\<close> expression is spelled \<open>this\<close>, and no declared
  name (of a variable, a function, a parameter or a class) is.
\<close>

fun thisReserved :: "Expr \<Rightarrow> bool"
  and thisReservedArgs :: "Expr list \<Rightarrow> bool" where
  "thisReserved (AssignExpr expr name val) = thisReserved val"
| "thisReserved (BinaryExpr left right) = (thisReserved left \<and> thisReserved right)"
| "thisReserved (CallExpr callee args) = (thisReserved callee \<and> thisReservedArgs args)"
| "thisReserved (GetExpr object) = thisReserved object"
| "thisReserved (GroupingExpr expression) = thisReserved expression"
| "thisReserved LiteralExpr = True"
| "thisReserved (LogicalExpr left right) = (thisReserved left \<and> thisReserved right)"
| "thisReserved (SetExpr object val) = (thisReserved object \<and> thisReserved val)"
| "thisReserved (SuperExpr expr keyword) = True"
| "thisReserved (ThisExpr expr keyword) = (lexeme keyword = ''this'')"
| "thisReserved (UnaryExpr right) = thisReserved right"
| "thisReserved (Variable expr) = True"
| "thisReservedArgs [] = True"
| "thisReservedArgs (arg # args) = (thisReserved arg \<and> thisReservedArgs args)"

fun thisReservedStmt :: "Stmt \<Rightarrow> bool"
  and thisReservedStmts :: "Stmt list \<Rightarrow> bool"
  and thisReservedFun :: "FunctionStmt \<Rightarrow> bool"
  and thisReservedFuns :: "FunctionStmt list \<Rightarrow> bool" where
  "thisReservedStmt (BlockStmt statements) = thisReservedStmts statements"
| "thisReservedStmt (ClassStmt name spr ms) =
     (lexeme name \<noteq> ''this'' \<and> thisReservedFuns ms)"
| "thisReservedStmt (ExpressionStmt expression) = thisReserved expression"
| "thisReservedStmt (Function f) = thisReservedFun f"
| "thisReservedStmt (IfStmt condition thenBranch elseBranch) =
     (thisReserved condition \<and> thisReservedStmt thenBranch \<and>
      (case elseBranch of None \<Rightarrow> True | Some e \<Rightarrow> thisReservedStmt e))"
| "thisReservedStmt (PrintStmt expression) = thisReserved expression"
| "thisReservedStmt (ReturnStmt keyword val) =
     (case val of None \<Rightarrow> True | Some v \<Rightarrow> thisReserved v)"
| "thisReservedStmt (VarStmt name initializer) =
     (lexeme name \<noteq> ''this'' \<and>
      (case initializer of None \<Rightarrow> True | Some e \<Rightarrow> thisReserved e))"
| "thisReservedStmt (WhileStmt condition b) = (thisReserved condition \<and> thisReservedStmt b)"
| "thisReservedStmts [] = True"
| "thisReservedStmts (statement # rest) =
     (thisReservedStmt statement \<and> thisReservedStmts rest)"
| "thisReservedFun (FunctionStmt name ps b) =
     (lexeme name \<noteq> ''this'' \<and> list_all (\<lambda>param. lexeme param \<noteq> ''this'') ps \<and>
      thisReservedStmts b)"
| "thisReservedFuns [] = True"
| "thisReservedFuns (method # rest) = (thisReservedFun method \<and> thisReservedFuns rest)"

text \<open>
  A state of the resolver in which a scope has an entry \<open>this\<close> only while a class is
  being resolved. The new resolver is in such a state.
\<close>

definition noThisOutsideClass :: "Resolver \<Rightarrow> bool" where
  "noThisOutsideClass r \<longleftrightarrow>
     currentClass r \<noteq> ClassNone \<or> list_all (\<lambda>scope. scope ''this'' = None) (scopes r)"

text \<open>For each scope of the stack, whether it has an entry \<open>this\<close>.\<close>

definition thisMarks :: "Resolver \<Rightarrow> bool list" where
  "thisMarks r = map (\<lambda>scope. scope ''this'' \<noteq> None) (scopes r)"

section \<open>Method lookup\<close>

lemma init_not_inherited: "''init'' \<notin> set objectPrototypeKeys"
  by (simp add: objectPrototypeKeys_def)

lemma findMethod_own:
  "methods c n = Some f \<Longrightarrow> findMethod c n = Some (Own f)"
  by (cases c) simp

lemma findMethod_inherited:
  "methods c n = None \<Longrightarrow> n \<in> set objectPrototypeKeys \<Longrightarrow>
   findMethod c n = Some (Inherited n)"
  by (cases c) simp

lemma findMethod_super:
  "methods c n = None \<Longrightarrow> n \<notin> set objectPrototypeKeys \<Longrightarrow> superclass c = Some s \<Longrightarrow>
   findMethod c n = findMethod s n"
  by (cases c) simp

lemma findMethod_root:
  "methods c n = None \<Longrightarrow> n \<notin> set objectPrototypeKeys \<Longrightarrow> superclass c = None \<Longrightarrow>
   findMethod c n = None"
  by (cases c) simp

lemma findMethod_Inherited_only:
  "findMethod c n = Some (Inherited k) \<Longrightarrow> k = n \<and> n \<in> set objectPrototypeKeys"
  by (induction c n rule: findMethod.induct) (auto split: option.splits if_splits)

text \<open>
  For a name that \<open>Object.prototype\<close> does not have, the result is the entry of the first
  class of the superclass chain whose table has the name, and \<open>null\<close> when there is none.
\<close>

lemma findMethod_chain:
  "n \<notin> set objectPrototypeKeys \<Longrightarrow>
   findMethod c n =
     (case find (\<lambda>k. methods k n \<noteq> None) (chain c) of
        None \<Rightarrow> None
      | Some k \<Rightarrow> map_option Own (methods k n))"
proof (induction c n rule: findMethod.induct)
  case (1 nm spr ms n)
  show ?case
  proof (cases "ms n")
    case (Some f)
    then show ?thesis by simp
  next
    case None
    note own = this
    show ?thesis
    proof (cases spr)
      case None
      with own "1.prems" show ?thesis by simp
    next
      case (Some s)
      with own "1.prems" "1.IH" [of s] show ?thesis by simp
    qed
  qed
qed

lemma findMethod_None_iff:
  "n \<notin> set objectPrototypeKeys \<Longrightarrow>
   findMethod c n = None \<longleftrightarrow> list_all (\<lambda>k. methods k n = None) (chain c)"
proof (induction c n rule: findMethod.induct)
  case (1 nm spr ms n)
  show ?case
  proof (cases "ms n")
    case (Some f)
    then show ?thesis by simp
  next
    case None
    note own = this
    show ?thesis
    proof (cases spr)
      case None
      with own "1.prems" show ?thesis by simp
    next
      case (Some s)
      with own "1.prems" "1.IH" [of s] show ?thesis by simp
    qed
  qed
qed

section \<open>What each operation of the resolver changes\<close>

lemma report_fields [simp]:
  "scopes (report e r) = scopes r"
  "currentFunction (report e r) = currentFunction r"
  "currentClass (report e r) = currentClass r"
  "resolved (report e r) = resolved r"
  "diagnostics (report e r) = diagnostics r @ [e]"
  by (simp_all add: report_def)

lemma interpreterResolve_fields [simp]:
  "scopes (interpreterResolve e d r) = scopes r"
  "currentFunction (interpreterResolve e d r) = currentFunction r"
  "currentClass (interpreterResolve e d r) = currentClass r"
  "diagnostics (interpreterResolve e d r) = diagnostics r"
  "resolved (interpreterResolve e d r) = resolved r @ [(e, d)]"
  by (simp_all add: interpreterResolve_def)

lemma scanScopes_fields [simp]:
  "scopes (scanScopes i e n r) = scopes r"
  "currentFunction (scanScopes i e n r) = currentFunction r"
  "currentClass (scanScopes i e n r) = currentClass r"
  "diagnostics (scanScopes i e n r) = diagnostics r"
  by (induction i) simp_all

lemma resolveLocal_fields [simp]:
  "scopes (resolveLocal e n r) = scopes r"
  "currentFunction (resolveLocal e n r) = currentFunction r"
  "currentClass (resolveLocal e n r) = currentClass r"
  "diagnostics (resolveLocal e n r) = diagnostics r"
  by (simp_all add: resolveLocal_def)

lemma visitSuperExpr_fields [simp]:
  "scopes (visitSuperExpr e k r) = scopes r"
  "currentFunction (visitSuperExpr e k r) = currentFunction r"
  "currentClass (visitSuperExpr e k r) = currentClass r"
  by (simp_all add: visitSuperExpr_def)

lemma visitThisExpr_fields [simp]:
  "scopes (visitThisExpr e k r) = scopes r"
  "currentFunction (visitThisExpr e k r) = currentFunction r"
  "currentClass (visitThisExpr e k r) = currentClass r"
  by (simp_all add: visitThisExpr_def)

lemma visitVariableExpr_fields [simp]:
  "scopes (visitVariableExpr v r) = scopes r"
  "currentFunction (visitVariableExpr v r) = currentFunction r"
  "currentClass (visitVariableExpr v r) = currentClass r"
  by (simp_all add: visitVariableExpr_def)

lemma resolveExpr_fields:
  "scopes (resolveExpr e r) = scopes r \<and>
   currentFunction (resolveExpr e r) = currentFunction r \<and>
   currentClass (resolveExpr e r) = currentClass r"
  "scopes (resolveArgs es r) = scopes r \<and>
   currentFunction (resolveArgs es r) = currentFunction r \<and>
   currentClass (resolveArgs es r) = currentClass r"
  by (induction e r and es r rule: resolveExpr_resolveArgs.induct) simp_all

lemma scanScopes_report:
  "scanScopes i e n (report x r) = report x (scanScopes i e n r)"
  by (induction i) (simp_all add: report_def interpreterResolve_def)

lemma resolveLocal_report:
  "resolveLocal e n (report x r) = report x (resolveLocal e n r)"
  by (simp add: resolveLocal_def scanScopes_report)

lemma beginScope_fields [simp]:
  "scopes (beginScope r) = scopes r @ [Map.empty]"
  "currentFunction (beginScope r) = currentFunction r"
  "currentClass (beginScope r) = currentClass r"
  "diagnostics (beginScope r) = diagnostics r"
  "resolved (beginScope r) = resolved r"
  by (simp_all add: beginScope_def)

lemma endScope_fields [simp]:
  "scopes (endScope r) = butlast (scopes r)"
  "currentFunction (endScope r) = currentFunction r"
  "currentClass (endScope r) = currentClass r"
  "diagnostics (endScope r) = diagnostics r"
  "resolved (endScope r) = resolved r"
  by (simp_all add: endScope_def)

lemma putInnermost_fields [simp]:
  "scopes (putInnermost k b r) = butlast (scopes r) @ [setProperty (last (scopes r)) k b]"
  "currentFunction (putInnermost k b r) = currentFunction r"
  "currentClass (putInnermost k b r) = currentClass r"
  "diagnostics (putInnermost k b r) = diagnostics r"
  "resolved (putInnermost k b r) = resolved r"
  by (simp_all add: putInnermost_def peek_def)

lemma isEmpty_iff [simp]: "isEmpty stack \<longleftrightarrow> stack = []"
  by (cases stack) (simp_all add: isEmpty_def)

lemma declareVar_fields [simp]:
  "length (scopes (declareVar name r)) = length (scopes r)"
  "currentFunction (declareVar name r) = currentFunction r"
  "currentClass (declareVar name r) = currentClass r"
  "resolved (declareVar name r) = resolved r"
  by (simp_all add: declareVar_def)

lemma defineVar_fields [simp]:
  "length (scopes (defineVar name r)) = length (scopes r)"
  "currentFunction (defineVar name r) = currentFunction r"
  "currentClass (defineVar name r) = currentClass r"
  "diagnostics (defineVar name r) = diagnostics r"
  "resolved (defineVar name r) = resolved r"
  by (simp_all add: defineVar_def)

lemma declareParams_fields [simp]:
  "length (scopes (declareParams ps r)) = length (scopes r)"
  "currentFunction (declareParams ps r) = currentFunction r"
  "currentClass (declareParams ps r) = currentClass r"
  "resolved (declareParams ps r) = resolved r"
  by (induction ps arbitrary: r) simp_all

lemma visitReturnStmt_fields [simp]:
  "scopes (visitReturnStmt keyword val r) = scopes r"
  "currentFunction (visitReturnStmt keyword val r) = currentFunction r"
  "currentClass (visitReturnStmt keyword val r) = currentClass r"
  by (simp_all add: visitReturnStmt_def Let_def resolveExpr_fields split: option.split)

lemma visitVarStmt_fields [simp]:
  "length (scopes (visitVarStmt name initializer r)) = length (scopes r)"
  "currentFunction (visitVarStmt name initializer r) = currentFunction r"
  "currentClass (visitVarStmt name initializer r) = currentClass r"
  by (simp_all add: visitVarStmt_def resolveExpr_fields split: option.split)

lemma classHeader_height:
  "length (scopes (classHeader name spr r)) =
     length (scopes r) +
       (case spr of None \<Rightarrow> 1
        | Some s \<Rightarrow> if lexeme name = lexeme (varName s) then 1 else 2)"
  by (simp add: classHeader_def classSuperclass_def split: option.split)

lemma classHeader_currentFunction [simp]:
  "currentFunction (classHeader name spr r) = currentFunction r"
  by (simp add: classHeader_def classSuperclass_def split: option.split)

lemma classFooter_height:
  "length (scopes (classFooter spr c r)) =
     length (scopes r) - (case spr of None \<Rightarrow> 1 | Some s \<Rightarrow> 2)"
  by (auto simp add: classFooter_def numeral_2_eq_2 split: option.split)

lemma classFooter_fields [simp]:
  "currentFunction (classFooter spr c r) = currentFunction r"
  "currentClass (classFooter spr c r) = c"
  by (simp_all add: classFooter_def)

subsection \<open>The height of the scope stack\<close>

lemma resolveStmt_height:
  "noSelfInheritance s \<Longrightarrow> length (scopes (resolveStmt s r)) = length (scopes r)"
  "noSelfInheritanceList ss \<Longrightarrow> length (scopes (resolveStmts ss r)) = length (scopes r)"
  "noSelfInheritanceFun f \<Longrightarrow> length (scopes (resolveFunction f t r)) = length (scopes r)"
  "noSelfInheritanceFuns fs \<Longrightarrow> length (scopes (resolveMethods fs r)) = length (scopes r)"
proof (induction s r and ss r and f t r and fs r
       rule: resolveStmt_resolveStmts_resolveFunction_resolveMethods.induct)
  case (2 name spr ms r)
  then show ?case
    by (simp add: classFooter_height classHeader_height split: option.splits)
next
  case (5 condition thenBranch elseBranch r)
  then show ?case
    by (simp add: resolveExpr_fields split: option.splits)
qed (simp_all add: resolveExpr_fields)

subsection \<open>Scope lookup and declaration, for names that \<open>Object.prototype\<close> does not have\<close>

lemma hasProperty_own:
  "k \<notin> set objectPrototypeKeys \<Longrightarrow> hasProperty k scope \<longleftrightarrow> scope k \<noteq> None"
  by (simp add: hasProperty_def)

lemma scanScopes_not_found:
  "(\<And>j. j < k \<Longrightarrow> \<not> hasProperty (lexeme name) (scopes r ! j)) \<Longrightarrow>
   scanScopes k expr name r = r"
  by (induction k) simp_all

lemma scanScopes_found:
  "i < k \<Longrightarrow> hasProperty (lexeme name) (scopes r ! i) \<Longrightarrow>
   (\<And>j. i < j \<Longrightarrow> j < k \<Longrightarrow> \<not> hasProperty (lexeme name) (scopes r ! j)) \<Longrightarrow>
   scanScopes k expr name r = interpreterResolve expr (length (scopes r) - 1 - i) r"
proof (induction k)
  case 0
  then show ?case by simp
next
  case (Suc k)
  show ?case
  proof (cases "i = k")
    case True
    with Suc.prems show ?thesis by simp
  next
    case False
    with Suc.prems have "i < k" by simp
    moreover have "\<not> hasProperty (lexeme name) (scopes r ! k)"
      using Suc.prems(3) [of k] \<open>i < k\<close> by simp
    ultimately show ?thesis
      using Suc.IH Suc.prems by simp
  qed
qed

lemma resolveLocal_found:
  "i < length (scopes r) \<Longrightarrow> hasProperty (lexeme name) (scopes r ! i) \<Longrightarrow>
   (\<And>j. i < j \<Longrightarrow> j < length (scopes r) \<Longrightarrow> \<not> hasProperty (lexeme name) (scopes r ! j)) \<Longrightarrow>
   resolveLocal expr name r = interpreterResolve expr (length (scopes r) - 1 - i) r"
  unfolding resolveLocal_def by (rule scanScopes_found)

lemma resolveLocal_not_found:
  "(\<And>j. j < length (scopes r) \<Longrightarrow> \<not> hasProperty (lexeme name) (scopes r ! j)) \<Longrightarrow>
   resolveLocal expr name r = r"
  unfolding resolveLocal_def by (rule scanScopes_not_found)

lemma declareVar_top_level: "scopes r = [] \<Longrightarrow> declareVar name r = r"
  by (simp add: declareVar_def)

lemma declareVar_diagnostics:
  "scopes r \<noteq> [] \<Longrightarrow>
   diagnostics (declareVar name r) =
     diagnostics r @
       (if hasProperty (lexeme name) (last (scopes r))
        then [ResolvingError ''Already variable with this name in scope'' (line name)]
        else [])"
  by (simp add: declareVar_def peek_def)

lemma declareVar_twice:
  assumes "scopes r \<noteq> []" and "lexeme first = lexeme second"
    and "lexeme first \<notin> set objectPrototypeKeys"
    and "last (scopes r) (lexeme first) = None"
  shows "diagnostics (declareVar second (declareVar first r)) =
           diagnostics r @
             [ResolvingError ''Already variable with this name in scope'' (line second)]"
proof -
  from assms(3) have np: "lexeme first \<noteq> ''__proto__''"
    by (auto simp add: objectPrototypeKeys_def)
  from assms have d1: "diagnostics (declareVar first r) = diagnostics r"
    by (simp add: declareVar_diagnostics hasProperty_def)
  from assms(1) have ne: "scopes (declareVar first r) \<noteq> []"
    by (simp add: declareVar_def)
  from assms(1) np have "last (scopes (declareVar first r)) (lexeme first) = Some False"
    by (simp add: declareVar_def setProperty_def)
  with assms(2) have "hasProperty (lexeme second) (last (scopes (declareVar first r)))"
    by (simp add: hasProperty_def)
  with ne d1 show ?thesis
    by (simp add: declareVar_diagnostics)
qed

lemma declareVar_nested:
  "lexeme name \<notin> set objectPrototypeKeys \<Longrightarrow>
   diagnostics (declareVar name (beginScope r)) = diagnostics r"
  by (simp add: declareVar_diagnostics hasProperty_def)

lemma self_inheriting_class_top_level:
  "scopes r = [] \<Longrightarrow> lexeme name = lexeme (varName s) \<Longrightarrow>
   resolveStmt (ClassStmt name (Some s) []) r =
     report (ResolvingError ''A class can't inherit from itself.'' (line (varName s))) r"
  by (simp add: classHeader_def classSuperclass_def classFooter_def declareVar_def
        defineVar_def report_def putInnermost_def beginScope_def endScope_def)

subsection \<open>Reading a variable in its own initializer\<close>

text \<open>
  The error is reported exactly when the stack is not empty and the innermost scope maps
  the name to \<open>false\<close>; the name is resolved in either case.
\<close>

lemma visitVariableExpr_diagnostics:
  "diagnostics (visitVariableExpr expr r) =
     diagnostics r @
       (if scopes r \<noteq> [] \<and> last (scopes r) (lexeme (varName expr)) = Some False
        then [ResolvingError ''Can't read local variable in its own initializer''
                (line (varName expr))]
        else [])"
  by (simp add: visitVariableExpr_def isFalse_def peek_def)

lemma visitVariableExpr_resolved:
  "resolved (visitVariableExpr expr r) = resolved (resolveLocal (node expr) (varName expr) r)"
  by (simp add: visitVariableExpr_def resolveLocal_report)

text \<open>
  A var statement declares the name, resolves the initializer if there is one, and
  defines the name. For a name other than \<open>__proto__\<close>, inside a scope, the name is mapped
  to \<open>false\<close> from the declaration on and to \<open>true\<close> after the statement, with or without
  an initializer; an initializer that reads the variable is reported.
\<close>

lemma visitVarStmt_steps:
  "visitVarStmt name None r = defineVar name (declareVar name r)"
  "visitVarStmt name (Some e) r = defineVar name (resolveExpr e (declareVar name r))"
  by (simp_all add: visitVarStmt_def)

lemma declareVar_status:
  "scopes r \<noteq> [] \<Longrightarrow> lexeme name \<noteq> ''__proto__'' \<Longrightarrow>
   scopes (declareVar name r) \<noteq> [] \<and>
   last (scopes (declareVar name r)) (lexeme name) = Some False"
  by (simp add: declareVar_def setProperty_def)

lemma defineVar_status:
  "scopes r \<noteq> [] \<Longrightarrow> lexeme name \<noteq> ''__proto__'' \<Longrightarrow>
   last (scopes (defineVar name r)) (lexeme name) = Some True"
  by (simp add: defineVar_def setProperty_def)

lemma visitVarStmt_status:
  assumes "scopes r \<noteq> []" and "lexeme name \<noteq> ''__proto__''"
  shows "last (scopes (visitVarStmt name initializer r)) (lexeme name) = Some True"
proof (cases initializer)
  case None
  with assms show ?thesis
    by (simp add: visitVarStmt_steps defineVar_status declareVar_status)
next
  case (Some e)
  from assms have "scopes (resolveExpr e (declareVar name r)) \<noteq> []"
    by (simp add: resolveExpr_fields declareVar_status)
  with Some assms(2) show ?thesis
    by (simp add: visitVarStmt_steps defineVar_status)
qed

lemma visitVarStmt_own_initializer:
  assumes "scopes r \<noteq> []" and "lexeme name \<noteq> ''__proto__''"
  shows "diagnostics (visitVarStmt name (Some (Variable (VariableExpr n name))) r) =
           diagnostics (declareVar name r) @
             [ResolvingError ''Can't read local variable in its own initializer'' (line name)]"
  using declareVar_status [OF assms]
  by (simp add: visitVarStmt_steps visitVariableExpr_diagnostics)

subsection \<open>The word \<open>this\<close> outside of a class\<close>

text \<open>
  Resolving a statement in which \<open>this\<close> is a keyword leaves the current class kind as
  it was, and the scopes with an entry \<open>this\<close> among those that had one before: where no
  class is being resolved, no scope has the entry, and \<open>resolveLocal\<close> for the keyword
  \<open>this\<close> finds nothing.
\<close>

lemma this_not_inherited: "''this'' \<notin> set objectPrototypeKeys"
  by (simp add: objectPrototypeKeys_def)

lemma resolveLocal_this_absent:
  assumes "list_all (\<lambda>scope. scope ''this'' = None) (scopes r)" and "lexeme keyword = ''this''"
  shows "resolveLocal expr keyword r = r"
proof (rule resolveLocal_not_found)
  fix j assume "j < length (scopes r)"
  with assms(1) have "(scopes r ! j) ''this'' = None"
    by (simp add: list_all_length)
  with assms(2) show "\<not> hasProperty (lexeme keyword) (scopes r ! j)"
    by (simp add: hasProperty_def this_not_inherited)
qed

lemma visitThisExprSpec_eq:
  assumes "noThisOutsideClass r" and "lexeme keyword = ''this''"
  shows "visitThisExprSpec expr keyword r = visitThisExpr expr keyword r"
proof (cases "currentClass r = ClassNone")
  case True
  with assms(1) have "list_all (\<lambda>scope. scope ''this'' = None) (scopes r)"
    by (simp add: noThisOutsideClass_def)
  then have "list_all (\<lambda>scope. scope ''this'' = None)
               (scopes (report (ResolvingError ''Can't use 'this' outside of a class''
                                  (line keyword)) r))"
    by simp
  from resolveLocal_this_absent [OF this assms(2)] True show ?thesis
    by (simp add: visitThisExprSpec_def visitThisExpr_def)
next
  case False
  then show ?thesis
    by (simp add: visitThisExprSpec_def visitThisExpr_def)
qed

lemma noThisOutsideClass_resolveExpr:
  "noThisOutsideClass (resolveExpr e r) = noThisOutsideClass r"
  "noThisOutsideClass (resolveArgs es r) = noThisOutsideClass r"
  by (simp_all add: noThisOutsideClass_def resolveExpr_fields)

lemma resolveExprSpec_eq:
  "noThisOutsideClass r \<Longrightarrow> thisReserved e \<Longrightarrow> resolveExprSpec e r = resolveExpr e r"
  "noThisOutsideClass r \<Longrightarrow> thisReservedArgs es \<Longrightarrow> resolveArgsSpec es r = resolveArgs es r"
proof (induction e r and es r rule: resolveExpr_resolveArgs.induct)
  case (1 expr name val r)
  then show ?case by simp
next
  case (2 left right r)
  from 2 have a: "resolveExprSpec left r = resolveExpr left r" by simp
  from 2 have "resolveExprSpec right (resolveExpr left r) = resolveExpr right (resolveExpr left r)"
    by (simp add: noThisOutsideClass_resolveExpr)
  with a show ?case by simp
next
  case (3 callee args r)
  from 3 have a: "resolveExprSpec callee r = resolveExpr callee r" by simp
  from 3 have "resolveArgsSpec args (resolveExpr callee r) = resolveArgs args (resolveExpr callee r)"
    by (simp add: noThisOutsideClass_resolveExpr)
  with a show ?case by simp
next
  case (4 object r)
  then show ?case by simp
next
  case (5 expression r)
  then show ?case by simp
next
  case (6 r)
  then show ?case by simp
next
  case (7 left right r)
  from 7 have a: "resolveExprSpec right r = resolveExpr right r" by simp
  from 7 have "resolveExprSpec left (resolveExpr right r) = resolveExpr left (resolveExpr right r)"
    by (simp add: noThisOutsideClass_resolveExpr)
  with a show ?case by simp
next
  case (8 object val r)
  from 8 have a: "resolveExprSpec val r = resolveExpr val r" by simp
  from 8 have "resolveExprSpec object (resolveExpr val r) = resolveExpr object (resolveExpr val r)"
    by (simp add: noThisOutsideClass_resolveExpr)
  with a show ?case by simp
next
  case (9 expr keyword r)
  then show ?case by simp
next
  case (10 expr keyword r)
  then show ?case by (simp add: visitThisExprSpec_eq)
next
  case (11 right r)
  then show ?case by simp
next
  case (12 expr r)
  then show ?case by simp
next
  case (13 r)
  then show ?case by simp
next
  case (14 arg args r)
  from 14 have a: "resolveExprSpec arg r = resolveExpr arg r" by simp
  from 14 have "resolveArgsSpec args (resolveExpr arg r) = resolveArgs args (resolveExpr arg r)"
    by (simp add: noThisOutsideClass_resolveExpr)
  with a show ?case by simp
qed


lemma noThisOutsideClass_marks:
  "noThisOutsideClass r \<longleftrightarrow> currentClass r \<noteq> ClassNone \<or> True \<notin> set (thisMarks r)"
  unfolding noThisOutsideClass_def thisMarks_def list_all_iff by auto

lemma thisMarks_beginScope: "thisMarks (beginScope r) = thisMarks r @ [False]"
  by (simp add: thisMarks_def)

lemma thisMarks_endScope: "thisMarks (endScope r) = butlast (thisMarks r)"
  by (simp add: thisMarks_def map_butlast)

lemma thisMarks_putInnermost:
  assumes "scopes r \<noteq> []" and "k \<noteq> ''this''"
  shows "thisMarks (putInnermost k b r) = thisMarks r"
proof -
  from assms(2) have "(setProperty (last (scopes r)) k b) ''this'' = last (scopes r) ''this''"
    by (simp add: setProperty_def)
  then have "thisMarks (putInnermost k b r) =
               map (\<lambda>scope. scope ''this'' \<noteq> None) (butlast (scopes r) @ [last (scopes r)])"
    by (simp add: thisMarks_def)
  with assms(1) show ?thesis
    by (simp add: thisMarks_def)
qed

lemma thisMarks_putInnermost_this:
  "thisMarks (putInnermost ''this'' True (beginScope r)) = thisMarks r @ [True]"
  by (simp add: thisMarks_def setProperty_def del: not_None_eq)

lemma thisMarks_declareVar:
  "lexeme name \<noteq> ''this'' \<Longrightarrow> thisMarks (declareVar name r) = thisMarks r"
  by (simp add: declareVar_def thisMarks_putInnermost) (simp add: thisMarks_def)

lemma thisMarks_defineVar:
  "lexeme name \<noteq> ''this'' \<Longrightarrow> thisMarks (defineVar name r) = thisMarks r"
  by (simp add: defineVar_def thisMarks_putInnermost)

lemma thisMarks_declareParams:
  "list_all (\<lambda>param. lexeme param \<noteq> ''this'') ps \<Longrightarrow>
   thisMarks (declareParams ps r) = thisMarks r"
  by (induction ps arbitrary: r) (simp_all add: thisMarks_declareVar thisMarks_defineVar)

lemma thisMarks_resolveExpr: "thisMarks (resolveExpr e r) = thisMarks r"
  by (simp add: thisMarks_def resolveExpr_fields)

lemma thisMarks_visitReturnStmt: "thisMarks (visitReturnStmt keyword val r) = thisMarks r"
  by (simp add: thisMarks_def)

lemma thisMarks_visitVarStmt:
  "lexeme name \<noteq> ''this'' \<Longrightarrow> thisMarks (visitVarStmt name initializer r) = thisMarks r"
  by (cases initializer)
     (simp_all add: visitVarStmt_def thisMarks_defineVar thisMarks_declareVar
        thisMarks_resolveExpr)

lemma thisMarks_classSuperclass:
  "thisMarks (classSuperclass name spr r) =
     thisMarks r @
       (case spr of None \<Rightarrow> []
        | Some s \<Rightarrow> if lexeme name = lexeme (varName s) then [] else [False])"
  by (cases spr) (simp_all add: classSuperclass_def thisMarks_def setProperty_def)

lemma thisMarks_classHeader:
  assumes "lexeme name \<noteq> ''this''"
  shows "thisMarks (classHeader name spr r) =
     thisMarks r @
       (case spr of None \<Rightarrow> [True]
        | Some s \<Rightarrow> if lexeme name = lexeme (varName s) then [True] else [False, True])"
proof -
  have "thisMarks (r\<lparr>currentClass := Class\<rparr>) = thisMarks r"
    by (simp add: thisMarks_def)
  with assms
  have "thisMarks (defineVar name (declareVar name (r\<lparr>currentClass := Class\<rparr>))) = thisMarks r"
    by (simp add: thisMarks_defineVar thisMarks_declareVar)
  then show ?thesis
    by (cases spr)
       (simp_all add: classHeader_def thisMarks_putInnermost_this thisMarks_classSuperclass)
qed

lemma thisMarks_classFooter:
  "thisMarks (classFooter spr c r) =
     (if spr \<noteq> None then butlast (butlast (thisMarks r)) else butlast (thisMarks r))"
  by (simp add: classFooter_def thisMarks_def map_butlast)

lemma prefix_butlast_snoc: "prefix xs (ys @ [y]) \<Longrightarrow> prefix (butlast xs) ys"
  by (metis butlast_snoc prefix_order.dual_order.trans prefix_snoc prefixeq_butlast)

lemma prefix_butlast_left: "prefix xs ys \<Longrightarrow> prefix (butlast xs) ys"
  by (metis prefix_order.dual_order.trans prefixeq_butlast)

lemma currentClass_resolveStmt:
  "currentClass (resolveStmt s r) = currentClass r"
  "currentClass (resolveStmts ss r) = currentClass r"
  "currentClass (resolveFunction f t r) = currentClass r"
  "currentClass (resolveMethods fs r) = currentClass r"
  by (induction s r and ss r and f t r and fs r
      rule: resolveStmt_resolveStmts_resolveFunction_resolveMethods.induct)
     (simp_all add: resolveExpr_fields split: option.split)


lemma thisMarks_resolveStmt:
  "thisReservedStmt s \<Longrightarrow> prefix (thisMarks (resolveStmt s r)) (thisMarks r)"
  "thisReservedStmts ss \<Longrightarrow> prefix (thisMarks (resolveStmts ss r)) (thisMarks r)"
  "thisReservedFun f \<Longrightarrow> prefix (thisMarks (resolveFunction f t r)) (thisMarks r)"
  "thisReservedFuns fs \<Longrightarrow> prefix (thisMarks (resolveMethods fs r)) (thisMarks r)"
proof (induction s r and ss r and f t r and fs r
       rule: resolveStmt_resolveStmts_resolveFunction_resolveMethods.induct)
  case (1 statements r)
  then have "prefix (thisMarks (resolveStmts statements (beginScope r))) (thisMarks r @ [False])"
    by (simp add: thisMarks_beginScope)
  then show ?case
    by (simp add: thisMarks_endScope prefix_butlast_snoc)
next
  case (2 name spr ms r)
  let ?m = "thisMarks (resolveMethods ms (classHeader name spr r))"
  from 2 have name: "lexeme name \<noteq> ''this''" and p: "prefix ?m (thisMarks (classHeader name spr r))"
    by simp_all
  show ?case
  proof (cases spr)
    case None
    with p name have "prefix ?m (thisMarks r @ [True])"
      by (simp add: thisMarks_classHeader)
    with None show ?thesis
      by (simp add: thisMarks_classFooter prefix_butlast_snoc)
  next
    case (Some s)
    show ?thesis
    proof (cases "lexeme name = lexeme (varName s)")
      case True
      with p name Some have "prefix ?m (thisMarks r @ [True])"
        by (simp add: thisMarks_classHeader)
      then have "prefix (butlast (butlast ?m)) (thisMarks r)"
        by (intro prefix_butlast_left prefix_butlast_snoc)
      with Some show ?thesis
        by (simp add: thisMarks_classFooter)
    next
      case False
      with p name Some have "prefix ?m ((thisMarks r @ [False]) @ [True])"
        by (simp add: thisMarks_classHeader)
      then have "prefix (butlast (butlast ?m)) (thisMarks r)"
        by (intro prefix_butlast_snoc)
      with Some show ?thesis
        by (simp add: thisMarks_classFooter)
    qed
  qed
next
  case (3 expression r)
  then show ?case by (simp add: thisMarks_resolveExpr)
next
  case (4 f r)
  have "thisMarks (defineVar (funName f) (declareVar (funName f) r)) = thisMarks r"
    using 4(2) by (cases f) (simp add: thisMarks_defineVar thisMarks_declareVar)
  with 4 show ?case by simp
next
  case (5 condition thenBranch elseBranch r)
  show ?case
  proof (cases elseBranch)
    case None
    with 5 show ?thesis by (simp add: thisMarks_resolveExpr)
  next
    case (Some e)
    with 5 have "prefix (thisMarks (resolveStmt thenBranch (resolveExpr condition r))) (thisMarks r)"
      and "prefix (thisMarks (resolveStmt e (resolveStmt thenBranch (resolveExpr condition r))))
                   (thisMarks (resolveStmt thenBranch (resolveExpr condition r)))"
      by (simp_all add: thisMarks_resolveExpr)
    with Some show ?thesis
      by (simp add: prefix_order.trans)
  qed
next
  case (6 expression r)
  then show ?case by (simp add: thisMarks_resolveExpr)
next
  case (7 keyword val r)
  then show ?case by (simp add: thisMarks_visitReturnStmt)
next
  case (8 name initializer r)
  then show ?case by (simp add: thisMarks_visitVarStmt)
next
  case (9 condition b r)
  then show ?case by (simp add: thisMarks_resolveExpr)
next
  case (10 r)
  then show ?case by simp
next
  case (11 statement rest r)
  then have "prefix (thisMarks (resolveStmt statement r)) (thisMarks r)"
    and "prefix (thisMarks (resolveStmts rest (resolveStmt statement r)))
           (thisMarks (resolveStmt statement r))"
    by simp_all
  then show ?case
    by (simp add: prefix_order.trans)
next
  case (12 name ps b type r)
  let ?r = "declareParams ps (beginScope (r\<lparr>currentFunction := type\<rparr>))"
  have "thisMarks (r\<lparr>currentFunction := type\<rparr>) = thisMarks r"
    by (simp add: thisMarks_def)
  with 12(2) have "thisMarks ?r = thisMarks r @ [False]"
    by (simp add: thisMarks_declareParams thisMarks_beginScope)
  with 12 have "prefix (thisMarks (resolveStmts b ?r)) (thisMarks r @ [False])"
    by simp
  then have "prefix (thisMarks (endScope (resolveStmts b ?r))) (thisMarks r)"
    by (simp add: thisMarks_endScope prefix_butlast_snoc)
  then show ?case
    by (simp add: thisMarks_def)
next
  case (13 r)
  then show ?case by simp
next
  case (14 m rest r)
  let ?t = "if lexeme (funName m) = ''init'' then Initializer else Method"
  from 14 have "prefix (thisMarks (resolveFunction m ?t r)) (thisMarks r)"
    and "prefix (thisMarks (resolveMethods rest (resolveFunction m ?t r)))
           (thisMarks (resolveFunction m ?t r))"
    by simp_all
  then show ?case
    by (simp add: prefix_order.trans)
qed

lemma noThisOutsideClass_prefix:
  assumes "noThisOutsideClass r" and "currentClass r' = currentClass r"
    and "prefix (thisMarks r') (thisMarks r)"
  shows "noThisOutsideClass r'"
proof -
  from assms(3) have "set (thisMarks r') \<subseteq> set (thisMarks r)"
    by (rule set_mono_prefix)
  with assms(1,2) show ?thesis
    unfolding noThisOutsideClass_marks by auto
qed

lemma noThisOutsideClass_same:
  assumes "noThisOutsideClass r" and "currentClass r' = currentClass r"
    and "thisMarks r' = thisMarks r"
  shows "noThisOutsideClass r'"
  using assms unfolding noThisOutsideClass_marks by simp

lemma noThisOutsideClass_resolveStmt:
  "noThisOutsideClass r \<Longrightarrow> thisReservedStmt s \<Longrightarrow> noThisOutsideClass (resolveStmt s r)"
  "noThisOutsideClass r \<Longrightarrow> thisReservedStmts ss \<Longrightarrow> noThisOutsideClass (resolveStmts ss r)"
  "noThisOutsideClass r \<Longrightarrow> thisReservedFun f \<Longrightarrow> noThisOutsideClass (resolveFunction f t r)"
  "noThisOutsideClass r \<Longrightarrow> thisReservedFuns fs \<Longrightarrow> noThisOutsideClass (resolveMethods fs r)"
  by (erule noThisOutsideClass_prefix;
      simp add: currentClass_resolveStmt thisMarks_resolveStmt)+

lemma noThisOutsideClass_beginScope:
  "noThisOutsideClass r \<Longrightarrow> noThisOutsideClass (beginScope r)"
  by (simp add: noThisOutsideClass_def)

lemma noThisOutsideClass_report:
  "noThisOutsideClass (report e r) = noThisOutsideClass r"
  by (simp add: noThisOutsideClass_def)

lemma noThisOutsideClass_declareVar:
  assumes "noThisOutsideClass r" and "lexeme name \<noteq> ''this''"
  shows "noThisOutsideClass (declareVar name r)"
  using assms(1) by (rule noThisOutsideClass_same) (simp_all add: thisMarks_declareVar assms(2))

lemma noThisOutsideClass_defineVar:
  assumes "noThisOutsideClass r" and "lexeme name \<noteq> ''this''"
  shows "noThisOutsideClass (defineVar name r)"
  using assms(1) by (rule noThisOutsideClass_same) (simp_all add: thisMarks_defineVar assms(2))

lemma noThisOutsideClass_declareParams:
  assumes "noThisOutsideClass r" and "list_all (\<lambda>param. lexeme param \<noteq> ''this'') ps"
  shows "noThisOutsideClass (declareParams ps r)"
  using assms(1) by (rule noThisOutsideClass_same) (simp_all add: thisMarks_declareParams assms(2))

lemma noThisOutsideClass_currentFunction:
  "noThisOutsideClass (r\<lparr>currentFunction := t\<rparr>) = noThisOutsideClass r"
  by (simp add: noThisOutsideClass_def)

lemma currentClass_classHeader: "currentClass (classHeader name spr r) \<noteq> ClassNone"
  by (cases spr) (simp_all add: classHeader_def classSuperclass_def)

lemma noThisOutsideClass_classHeader: "noThisOutsideClass (classHeader name spr r)"
  by (simp add: noThisOutsideClass_def currentClass_classHeader)


lemma visitReturnStmtSpec_eq:
  assumes "noThisOutsideClass r" and "case val of None \<Rightarrow> True | Some v \<Rightarrow> thisReserved v"
  shows "visitReturnStmtSpec keyword val r = visitReturnStmt keyword val r"
proof (cases val)
  case None
  then show ?thesis
    by (simp add: visitReturnStmtSpec_def visitReturnStmt_def)
next
  case (Some v)
  with assms show ?thesis
    by (simp add: visitReturnStmtSpec_def visitReturnStmt_def Let_def resolveExprSpec_eq
          noThisOutsideClass_report)
qed

lemma visitVarStmtSpec_eq:
  assumes "noThisOutsideClass r" and "lexeme name \<noteq> ''this''"
    and "case initializer of None \<Rightarrow> True | Some e \<Rightarrow> thisReserved e"
  shows "visitVarStmtSpec name initializer r = visitVarStmt name initializer r"
proof (cases initializer)
  case None
  then show ?thesis
    by (simp add: visitVarStmtSpec_def visitVarStmt_def)
next
  case (Some e)
  with assms show ?thesis
    by (simp add: visitVarStmtSpec_def visitVarStmt_def resolveExprSpec_eq
          noThisOutsideClass_declareVar)
qed

lemma resolveStmtSpec_eq:
  "noThisOutsideClass r \<Longrightarrow> thisReservedStmt s \<Longrightarrow> resolveStmtSpec s r = resolveStmt s r"
  "noThisOutsideClass r \<Longrightarrow> thisReservedStmts ss \<Longrightarrow>
     resolveStmtsSpec ss r = resolveStmts ss r"
  "noThisOutsideClass r \<Longrightarrow> thisReservedFun f \<Longrightarrow>
     resolveFunctionSpec f t r = resolveFunction f t r"
  "noThisOutsideClass r \<Longrightarrow> thisReservedFuns fs \<Longrightarrow>
     resolveMethodsSpec fs r = resolveMethods fs r"
proof (induction s r and ss r and f t r and fs r
       rule: resolveStmt_resolveStmts_resolveFunction_resolveMethods.induct)
  case (1 statements r)
  then show ?case by (simp add: noThisOutsideClass_beginScope)
next
  case (2 name spr ms r)
  then show ?case by (simp add: noThisOutsideClass_classHeader)
next
  case (3 expression r)
  then show ?case by (simp add: resolveExprSpec_eq)
next
  case (4 f r)
  from "4.prems" have "lexeme (funName f) \<noteq> ''this''"
    by (cases f) simp
  with "4.prems" have "noThisOutsideClass (defineVar (funName f) (declareVar (funName f) r))"
    by (simp add: noThisOutsideClass_defineVar noThisOutsideClass_declareVar)
  with 4 show ?case by simp
next
  case (5 condition thenBranch elseBranch r)
  from "5.prems" have c: "resolveExprSpec condition r = resolveExpr condition r"
    and j: "noThisOutsideClass (resolveExpr condition r)"
    by (simp_all add: resolveExprSpec_eq noThisOutsideClass_resolveExpr)
  show ?case
  proof (cases elseBranch)
    case None
    with 5 c j show ?thesis by simp
  next
    case (Some e)
    with 5 j have "noThisOutsideClass (resolveStmt thenBranch (resolveExpr condition r))"
      by (simp add: noThisOutsideClass_resolveStmt)
    with 5 Some c j show ?thesis by simp
  qed
next
  case (6 expression r)
  then show ?case by (simp add: resolveExprSpec_eq)
next
  case (7 keyword val r)
  then show ?case by (simp add: visitReturnStmtSpec_eq)
next
  case (8 name initializer r)
  then show ?case by (simp add: visitVarStmtSpec_eq)
next
  case (9 condition b r)
  then show ?case
    by (simp add: resolveExprSpec_eq noThisOutsideClass_resolveExpr)
next
  case (10 r)
  then show ?case by simp
next
  case (11 statement rest r)
  then have "noThisOutsideClass (resolveStmt statement r)"
    by (simp add: noThisOutsideClass_resolveStmt)
  with 11 show ?case by simp
next
  case (12 name ps b type r)
  then have "noThisOutsideClass (declareParams ps (beginScope (r\<lparr>currentFunction := type\<rparr>)))"
    by (simp add: noThisOutsideClass_declareParams noThisOutsideClass_beginScope
          noThisOutsideClass_currentFunction)
  with 12 show ?case by simp
next
  case (13 r)
  then show ?case by simp
next
  case (14 m rest r)
  then have "noThisOutsideClass
               (resolveFunction m
                  (if lexeme (funName m) = ''init'' then Initializer else Method) r)"
    by (simp add: noThisOutsideClass_resolveStmt)
  with 14 show ?case by simp
qed

lemma noThisOutsideClass_newResolver: "noThisOutsideClass newResolver"
  by (simp add: noThisOutsideClass_def newResolver_def)

section \<open>Claims about the object model\<close>

text \<open>
  C7. \<open>findMethod\<close> is claimed to return \<open>null\<close> when no class of the superclass chain
  defines the name, and otherwise the first match along the chain. The test
  \<open>name in this.methods\<close> also holds for the names that every object inherits from
  \<open>Object.prototype\<close>: for a class with an empty method table and no superclass,
  \<open>findMethod('toString')\<close> returns the inherited member instead of \<open>null\<close>, and for a
  class with an empty table whose superclass defines \<open>toString\<close> it returns the
  inherited member instead of the superclass's method.
\<close>

theorem findMethod_inherited_name:
  "findMethod (LoxClass ''A'' None (Map.empty :: string \<rightharpoonup> FunctionStmt)) ''toString''
     = Some (Inherited ''toString'')
   \<and> findMethod
        (LoxClass ''B''
           (Some (LoxClass ''A'' None
                    [''toString'' \<mapsto> FunctionStmt (Token ''toString'' 2) [] []]))
           Map.empty) ''toString''
     = Some (Inherited ''toString'')"
  by (simp add: objectPrototypeKeys_def)

text \<open>
  C10, as stated, says that \<open>arity\<close> returns 0 exactly when no class of the superclass
  chain defines \<open>init\<close>. A class whose \<open>init\<close> takes no parameter has arity 0 as well:
  here a function is represented by its declaration and its arity is the number of its
  parameters.
\<close>

theorem arity_zero_with_init:
  "\<not> (arity (\<lambda>m. case m of Own f \<Rightarrow> length (params f) | Inherited k \<Rightarrow> 0)
         (LoxClass ''A'' None [''init'' \<mapsto> FunctionStmt (Token ''init'' 2) [] []]) = 0
       \<longleftrightarrow> list_all (\<lambda>k. methods k ''init'' = None)
             (chain (LoxClass ''A'' None [''init'' \<mapsto> FunctionStmt (Token ''init'' 2) [] []])))"
  by (simp add: arity_def)

text \<open>
  C10, amended. For every class, \<open>arity\<close> returns the arity of the \<open>init\<close> method found by
  \<open>findMethod\<close>, so a class with no \<open>init\<close> of its own has the arity of its superclass;
  it returns 0 when no class of the superclass chain defines \<open>init\<close>, and otherwise only
  when the \<open>init\<close> found has arity 0 itself. What \<open>findMethod\<close> finds for \<open>init\<close> is a
  method of a class of the chain, never a member of \<open>Object.prototype\<close>.
\<close>

theorem arity_of_init:
  "arity fn_arity c =
     (case findMethod c ''init'' of None \<Rightarrow> 0 | Some initializer \<Rightarrow> fn_arity initializer)
   \<and> (methods c ''init'' = None \<and> superclass c = Some s \<longrightarrow>
        arity fn_arity c = arity fn_arity s)
   \<and> (list_all (\<lambda>k. methods k ''init'' = None) (chain c) \<longrightarrow> arity fn_arity c = 0)
   \<and> (arity fn_arity c = 0 \<longleftrightarrow>
        list_all (\<lambda>k. methods k ''init'' = None) (chain c)
        \<or> (\<exists>initializer. findMethod c ''init'' = Some initializer \<and> fn_arity initializer = 0))
   \<and> findMethod c ''init'' =
       (case find (\<lambda>k. methods k ''init'' \<noteq> None) (chain c) of
          None \<Rightarrow> None
        | Some k \<Rightarrow> map_option Own (methods k ''init''))"
proof (intro conjI impI)
  show "arity fn_arity c =
     (case findMethod c ''init'' of None \<Rightarrow> 0 | Some initializer \<Rightarrow> fn_arity initializer)"
    by (simp add: arity_def)
  show "arity fn_arity c = arity fn_arity s"
    if "methods c ''init'' = None \<and> superclass c = Some s"
    using that by (simp add: arity_def findMethod_super init_not_inherited)
  show "arity fn_arity c = 0"
    if "list_all (\<lambda>k. methods k ''init'' = None) (chain c)"
    using that by (simp add: arity_def findMethod_None_iff [OF init_not_inherited, symmetric])
  show "arity fn_arity c = 0 \<longleftrightarrow>
        list_all (\<lambda>k. methods k ''init'' = None) (chain c)
        \<or> (\<exists>initializer. findMethod c ''init'' = Some initializer \<and> fn_arity initializer = 0)"
    by (cases "findMethod c ''init''")
       (simp_all add: arity_def findMethod_None_iff [OF init_not_inherited, symmetric])
  show "findMethod c ''init'' =
       (case find (\<lambda>k. methods k ''init'' \<noteq> None) (chain c) of
          None \<Rightarrow> None
        | Some k \<Rightarrow> map_option Own (methods k ''init''))"
    by (rule findMethod_chain [OF init_not_inherited])
qed

theorem arity_of_init_witness:
  "methods (LoxClass ''B'' (Some (LoxClass ''A'' None
              [''init'' \<mapsto> FunctionStmt (Token ''init'' 2) [Token ''x'' 2, Token ''y'' 2] []]))
              Map.empty) ''init'' = None
   \<and> arity (\<lambda>m. case m of Own f \<Rightarrow> length (params f) | Inherited k \<Rightarrow> 0)
        (LoxClass ''B'' (Some (LoxClass ''A'' None
              [''init'' \<mapsto> FunctionStmt (Token ''init'' 2) [Token ''x'' 2, Token ''y'' 2] []]))
              Map.empty) = 2
   \<and> list_all (\<lambda>k. methods k ''init'' = None)
        (chain (LoxClass ''C'' None (Map.empty :: string \<rightharpoonup> FunctionStmt)))
   \<and> arity (\<lambda>m. case m of Own f \<Rightarrow> length (params f) | Inherited k \<Rightarrow> 0)
        (LoxClass ''C'' None Map.empty) = 0"
  using arity_of_init
          [of "\<lambda>m. case m of Own f \<Rightarrow> length (params f) | Inherited k \<Rightarrow> 0"
              "LoxClass ''B'' (Some (LoxClass ''A'' None
                 [''init'' \<mapsto> FunctionStmt (Token ''init'' 2) [Token ''x'' 2, Token ''y'' 2] []]))
                 Map.empty"
              "LoxClass ''A'' None
                 [''init'' \<mapsto> FunctionStmt (Token ''init'' 2) [Token ''x'' 2, Token ''y'' 2] []]"]
        arity_of_init
          [of "\<lambda>m. case m of Own f \<Rightarrow> length (params f) | Inherited k \<Rightarrow> 0"
              "LoxClass ''C'' None Map.empty"]
  by (simp add: arity_def objectPrototypeKeys_def)



section \<open>Claims about the resolver\<close>

text \<open>
  C1. \<open>resolveLocal\<close> is claimed to record nothing when no scope on the stack contains the
  name. The test \<open>name.lexeme in this.scopes[i]\<close> also holds for the names that every
  object inherits from \<open>Object.prototype\<close>: inside a block that declares nothing, the
  stack is one empty scope, and resolving the variable \<open>toString\<close> records depth 0 for
  the node, in the sequence of calls and so in the depth table.
\<close>

theorem resolveLocal_inherited_name:
  "scopes (beginScope newResolver) = [Map.empty]
   \<and> resolved (resolveLocal 1 (Token ''toString'' 1) (beginScope newResolver)) = [(1, 0)]
   \<and> resolved (resolveStmts
         [BlockStmt [PrintStmt (Variable (VariableExpr 1 (Token ''toString'' 1)))]] newResolver)
      = [(1, 0)]
   \<and> depthTable (resolveStmts
         [BlockStmt [PrintStmt (Variable (VariableExpr 1 (Token ''toString'' 1)))]] newResolver) 1
      = Some 0"
  by (simp add: newResolver_def resolveLocal_def hasProperty_def objectPrototypeKeys_def
        visitVariableExpr_def isFalse_def peek_def depthTable_def)

text \<open>
  C2. Resolving a class declaration is claimed to leave the scope stack at its prior
  height. A class that names itself as its superclass pushes one scope (for \<open>this\<close>) and
  pops two, since the second \<open>endScope\<close> only asks whether there is a superclass. Inside
  a block the second pop removes the block's own scope: the stack of height 1 has
  height 0 afterwards, and the variable \<open>a\<close> of the block, read after the class, gets no
  depth, whereas after a class with another superclass it gets depth 0.
\<close>

theorem self_inheriting_class_pops_twice:
  "length (scopes (beginScope newResolver)) = 1
   \<and> length (scopes (resolveStmt
         (ClassStmt (Token ''A'' 2) (Some (VariableExpr 1 (Token ''A'' 2))) [])
         (beginScope newResolver))) = 0
   \<and> resolved (resolveStmts
         [BlockStmt [VarStmt (Token ''a'' 1) None,
                     ClassStmt (Token ''A'' 2) (Some (VariableExpr 1 (Token ''A'' 2))) [],
                     PrintStmt (Variable (VariableExpr 2 (Token ''a'' 3)))]] newResolver) = []
   \<and> resolved (resolveStmts
         [BlockStmt [VarStmt (Token ''a'' 1) None,
                     ClassStmt (Token ''A'' 2) (Some (VariableExpr 1 (Token ''B'' 2))) [],
                     PrintStmt (Variable (VariableExpr 2 (Token ''a'' 3)))]] newResolver)
      = [(2, 0)]"
  by (simp add: newResolver_def classHeader_def classSuperclass_def classFooter_def
        visitVarStmt_def declareVar_def defineVar_def hasProperty_def objectPrototypeKeys_def
        setProperty_def peek_def visitVariableExpr_def isFalse_def resolveLocal_def)

text \<open>
  C3. For every \<open>super\<close> expression the resolver reports an error when the current class
  kind is \<open>None\<close>, another one when the kind is neither \<open>None\<close> nor \<open>Subclass\<close>, and then
  calls \<open>resolveLocal\<close> for the keyword. For every \<open>this\<close> expression it reports an error
  when the current class kind is \<open>None\<close>, and the state it leaves is the one that
  \<open>resolveLocal\<close> for the keyword leaves after the error: the method returns right after
  the report, and in a state where a scope has an entry \<open>this\<close> only while a class is
  being resolved, \<open>resolveLocal\<close> has nothing to record there. So on every program in
  which \<open>this\<close> is a keyword, from the new resolver or from any such state, the resolver
  and the one that resolves \<open>this\<close> after the error compute the same state, and resolution
  goes on in a state of the same kind.
\<close>

theorem this_super_resolveLocal:
  "visitSuperExpr expr keyword r =
     resolveLocal expr keyword
       (r\<lparr>diagnostics := diagnostics r @
           (if currentClass r = ClassNone
            then [ResolvingError ''Can't use 'super' outside of class'' (line keyword)]
            else if currentClass r \<noteq> SubClass
            then [ResolvingError ''Can't use 'super' in a class with no superclass''
                    (line keyword)]
            else [])\<rparr>)
   \<and> diagnostics (visitThisExpr expr keyword r) =
       diagnostics r @
         (if currentClass r = ClassNone
          then [ResolvingError ''Can't use 'this' outside of a class'' (line keyword)]
          else [])
   \<and> visitThisExprSpec expr keyword r =
       resolveLocal expr keyword
         (r\<lparr>diagnostics := diagnostics r @
             (if currentClass r = ClassNone
              then [ResolvingError ''Can't use 'this' outside of a class'' (line keyword)]
              else [])\<rparr>)
   \<and> (noThisOutsideClass r \<and> lexeme keyword = ''this'' \<longrightarrow>
        visitThisExpr expr keyword r = visitThisExprSpec expr keyword r)
   \<and> (noThisOutsideClass r \<and> thisReservedStmts program \<longrightarrow>
        resolveStmts program r = resolveStmtsSpec program r
        \<and> noThisOutsideClass (resolveStmts program r))
   \<and> (thisReservedStmts program \<longrightarrow>
        resolveStmts program newResolver = resolveStmtsSpec program newResolver)"
proof (intro conjI impI)
  show "visitSuperExpr expr keyword r =
     resolveLocal expr keyword
       (r\<lparr>diagnostics := diagnostics r @
           (if currentClass r = ClassNone
            then [ResolvingError ''Can't use 'super' outside of class'' (line keyword)]
            else if currentClass r \<noteq> SubClass
            then [ResolvingError ''Can't use 'super' in a class with no superclass''
                    (line keyword)]
            else [])\<rparr>)"
    by (simp add: visitSuperExpr_def report_def)
  show "diagnostics (visitThisExpr expr keyword r) =
       diagnostics r @
         (if currentClass r = ClassNone
          then [ResolvingError ''Can't use 'this' outside of a class'' (line keyword)]
          else [])"
    by (simp add: visitThisExpr_def)
  show "visitThisExprSpec expr keyword r =
       resolveLocal expr keyword
         (r\<lparr>diagnostics := diagnostics r @
             (if currentClass r = ClassNone
              then [ResolvingError ''Can't use 'this' outside of a class'' (line keyword)]
              else [])\<rparr>)"
    by (simp add: visitThisExprSpec_def report_def)
  show "visitThisExpr expr keyword r = visitThisExprSpec expr keyword r"
    if "noThisOutsideClass r \<and> lexeme keyword = ''this''"
    using that by (simp add: visitThisExprSpec_eq)
  show "resolveStmts program r = resolveStmtsSpec program r"
    if "noThisOutsideClass r \<and> thisReservedStmts program"
    using that by (simp add: resolveStmtSpec_eq)
  show "noThisOutsideClass (resolveStmts program r)"
    if "noThisOutsideClass r \<and> thisReservedStmts program"
    using that by (simp add: noThisOutsideClass_resolveStmt)
  show "resolveStmts program newResolver = resolveStmtsSpec program newResolver"
    if "thisReservedStmts program"
    using that by (simp add: resolveStmtSpec_eq noThisOutsideClass_newResolver)
qed

theorem this_super_resolveLocal_witness:
  "noThisOutsideClass newResolver
   \<and> lexeme (Token ''this'' 1) = ''this''
   \<and> visitThisExprSpec 1 (Token ''this'' 1) newResolver
      = report (ResolvingError ''Can't use 'this' outside of a class'' 1) newResolver
   \<and> thisReservedStmts
        [PrintStmt (ThisExpr 1 (Token ''this'' 1)),
         ClassStmt (Token ''A'' 2) None
           [FunctionStmt (Token ''get'' 3) []
              [ReturnStmt (Token ''return'' 3) (Some (ThisExpr 2 (Token ''this'' 3)))]]]
   \<and> diagnostics (resolveStmtsSpec
        [PrintStmt (ThisExpr 1 (Token ''this'' 1)),
         ClassStmt (Token ''A'' 2) None
           [FunctionStmt (Token ''get'' 3) []
              [ReturnStmt (Token ''return'' 3) (Some (ThisExpr 2 (Token ''this'' 3)))]]]
        newResolver) = [ResolvingError ''Can't use 'this' outside of a class'' 1]
   \<and> resolved (resolveStmtsSpec
        [PrintStmt (ThisExpr 1 (Token ''this'' 1)),
         ClassStmt (Token ''A'' 2) None
           [FunctionStmt (Token ''get'' 3) []
              [ReturnStmt (Token ''return'' 3) (Some (ThisExpr 2 (Token ''this'' 3)))]]]
        newResolver) = [(2, 1)]"
proof -
  let ?program =
    "[PrintStmt (ThisExpr 1 (Token ''this'' 1)),
      ClassStmt (Token ''A'' 2) None
        [FunctionStmt (Token ''get'' 3) []
           [ReturnStmt (Token ''return'' 3) (Some (ThisExpr 2 (Token ''this'' 3)))]]]"
  have state: "noThisOutsideClass newResolver"
    by (simp add: noThisOutsideClass_def newResolver_def)
  have program: "thisReservedStmts ?program"
    by simp
  have d: "diagnostics (resolveStmts ?program newResolver)
             = [ResolvingError ''Can't use 'this' outside of a class'' 1]"
    by (simp add: newResolver_def visitThisExpr_def classHeader_def classSuperclass_def
          classFooter_def declareVar_def defineVar_def visitReturnStmt_def)
  have l: "resolved (resolveStmts ?program newResolver) = [(2, 1)]"
    by (simp add: newResolver_def visitThisExpr_def classHeader_def classSuperclass_def
          classFooter_def declareVar_def defineVar_def visitReturnStmt_def resolveLocal_def
          hasProperty_def objectPrototypeKeys_def setProperty_def peek_def)
  have e: "visitThisExpr 1 (Token ''this'' 1) newResolver
             = report (ResolvingError ''Can't use 'this' outside of a class'' 1) newResolver"
    by (simp add: visitThisExpr_def newResolver_def)
  note all = this_super_resolveLocal
               [where r = newResolver and program = ?program and expr = 1
                  and keyword = "Token ''this'' 1"]
  from all state program
  have p: "resolveStmts ?program newResolver = resolveStmtsSpec ?program newResolver"
    by blast
  from all state
  have "visitThisExpr 1 (Token ''this'' 1) newResolver
          = visitThisExprSpec 1 (Token ''this'' 1) newResolver"
    by simp
  with e p state program d l show ?thesis
    by simp
qed

text \<open>
  C4. Declaring a name once in a scope is claimed to report nothing. The test
  \<open>name.lexeme in scope\<close> also holds for the names that every object inherits from
  \<open>Object.prototype\<close>: a block whose only statement declares the variable \<open>toString\<close>
  reports "Already variable with this name in scope", and declaring \<open>valueOf\<close> in a
  block and in a block nested in it reports the error twice.
\<close>

theorem declareVar_inherited_name:
  "diagnostics (resolveStmts [BlockStmt [VarStmt (Token ''toString'' 1) None]] newResolver)
     = [ResolvingError ''Already variable with this name in scope'' 1]
   \<and> diagnostics (resolveStmts
         [BlockStmt [VarStmt (Token ''valueOf'' 1) None,
                     BlockStmt [VarStmt (Token ''valueOf'' 2) None]]] newResolver)
     = [ResolvingError ''Already variable with this name in scope'' 1,
        ResolvingError ''Already variable with this name in scope'' 2]"
  by (simp add: newResolver_def visitVarStmt_def declareVar_def hasProperty_def
        objectPrototypeKeys_def peek_def)

text \<open>
  C5. For every return statement the resolver reports an error of its own if and only
  if the current function kind is \<open>None\<close>, or the statement has a value and the kind is
  \<open>Initializer\<close>; it reports at most one. A return without a value inside an initializer
  changes nothing, and a value, when present, is resolved after the check.
\<close>

theorem visitReturnStmt_errors:
  "\<exists>errs r1.
     errs =
       (if currentFunction r = FunctionNone
        then [ResolvingError ''Can't return from top-level code'' (line keyword)]
        else if val \<noteq> None \<and> currentFunction r = Initializer
        then [ResolvingError ''Can't return a value from an initializer'' (line keyword)]
        else [])
     \<and> (errs \<noteq> [] \<longleftrightarrow>
          currentFunction r = FunctionNone \<or> (val \<noteq> None \<and> currentFunction r = Initializer))
     \<and> r1 = r\<lparr>diagnostics := diagnostics r @ errs\<rparr>
     \<and> visitReturnStmt keyword val r = (case val of None \<Rightarrow> r1 | Some v \<Rightarrow> resolveExpr v r1)
     \<and> (currentFunction r = Initializer \<longrightarrow> visitReturnStmt keyword None r = r)"
  by (simp add: visitReturnStmt_def Let_def report_def split: option.split)

theorem visitReturnStmt_errors_witness:
  "currentFunction (newResolver\<lparr>currentFunction := Initializer\<rparr>) = Initializer
   \<and> visitReturnStmt (Token ''return'' 3) None (newResolver\<lparr>currentFunction := Initializer\<rparr>)
       = newResolver\<lparr>currentFunction := Initializer\<rparr>
   \<and> diagnostics (resolveStmts
         [ClassStmt (Token ''A'' 1) None
            [FunctionStmt (Token ''init'' 2) [] [ReturnStmt (Token ''return'' 3) None]]]
         newResolver) = []"
  using visitReturnStmt_errors
          [of "newResolver\<lparr>currentFunction := Initializer\<rparr>" "Token ''return'' 3" None]
  by (simp add: newResolver_def classHeader_def classSuperclass_def classFooter_def
        declareVar_def defineVar_def visitReturnStmt_def)

text \<open>
  C6. A var statement is claimed to open a window in which the name is mapped to
  \<open>false\<close>, so that an initializer reading the variable is reported. For the name
  \<open>__proto__\<close> the assignments \<open>scope[name] = false\<close> and \<open>scope[name] = true\<close> store
  nothing: in the block \<open>{ var __proto__ = __proto__; }\<close> the scope has no entry for the
  name after \<open>declare\<close>, and the only error reported is "Already variable with this name
  in scope", not "Can't read local variable in its own initializer", which the same
  block reports for the name \<open>a\<close>.
\<close>

theorem var_proto_opens_no_window:
  "last (scopes (declareVar (Token ''__proto__'' 1) (beginScope newResolver))) ''__proto__'' = None
   \<and> diagnostics (resolveStmts
         [BlockStmt [VarStmt (Token ''__proto__'' 1)
                       (Some (Variable (VariableExpr 1 (Token ''__proto__'' 1))))]] newResolver)
      = [ResolvingError ''Already variable with this name in scope'' 1]
   \<and> diagnostics (resolveStmts
         [BlockStmt [VarStmt (Token ''a'' 1)
                       (Some (Variable (VariableExpr 1 (Token ''a'' 1))))]] newResolver)
      = [ResolvingError ''Can't read local variable in its own initializer'' 1]"
  by (simp add: newResolver_def visitVarStmt_def declareVar_def defineVar_def hasProperty_def
        objectPrototypeKeys_def setProperty_def peek_def visitVariableExpr_def isFalse_def)

text \<open>
  C8. For every logical expression the resolver resolves the right operand before the
  left one; for every binary expression it resolves the left operand before the right
  one. The order shows in the diagnostics (two uses of \<open>this\<close> outside of a class, on
  lines 1 and 2) and in the sequence of depths handed to the interpreter (the
  variables \<open>a\<close> and \<open>b\<close> of a block, nodes 1 and 2).
\<close>

theorem logical_right_operand_first:
  "resolveExpr (LogicalExpr left right) r = resolveExpr left (resolveExpr right r)
   \<and> resolveExpr (BinaryExpr left right) r = resolveExpr right (resolveExpr left r)
   \<and> diagnostics (resolveStmts
         [ExpressionStmt (LogicalExpr (ThisExpr 1 (Token ''this'' 1)) (ThisExpr 2 (Token ''this'' 2)))]
         newResolver)
      = [ResolvingError ''Can't use 'this' outside of a class'' 2,
         ResolvingError ''Can't use 'this' outside of a class'' 1]
   \<and> diagnostics (resolveStmts
         [ExpressionStmt (BinaryExpr (ThisExpr 1 (Token ''this'' 1)) (ThisExpr 2 (Token ''this'' 2)))]
         newResolver)
      = [ResolvingError ''Can't use 'this' outside of a class'' 1,
         ResolvingError ''Can't use 'this' outside of a class'' 2]
   \<and> resolved (resolveStmts
         [BlockStmt
            [VarStmt (Token ''a'' 1) None, VarStmt (Token ''b'' 2) None,
             ExpressionStmt (LogicalExpr (Variable (VariableExpr 1 (Token ''a'' 3)))
                                          (Variable (VariableExpr 2 (Token ''b'' 3))))]]
         newResolver)
      = [(2, 0), (1, 0)]
   \<and> resolved (resolveStmts
         [BlockStmt
            [VarStmt (Token ''a'' 1) None, VarStmt (Token ''b'' 2) None,
             ExpressionStmt (BinaryExpr (Variable (VariableExpr 1 (Token ''a'' 3)))
                                         (Variable (VariableExpr 2 (Token ''b'' 3))))]]
         newResolver)
      = [(1, 0), (2, 0)]"
  by (simp add: newResolver_def visitThisExpr_def visitVarStmt_def declareVar_def defineVar_def
        hasProperty_def objectPrototypeKeys_def setProperty_def visitVariableExpr_def
        isFalse_def peek_def resolveLocal_def)

end
